theory Spec2Isabelle
  imports Complex_Main
begin

section \<open>Python values and numbers\<close>

text \<open>
  The exposure model of \<^verbatim>\<open>utils/aq_exposures.py\<close> computes on Python floats. A float is
  modelled by the real number it denotes: arithmetic is exact, and \<^verbatim>\<open>round(x, 2)\<close> is
  decimal rounding to two places with ties to the even neighbour, which is what Python does
  on the exact value of its argument. Binary representation error, infinities and
  overflow are outside the model; the concrete inputs used below are dyadic or short
  decimals on which the model and double arithmetic agree.
\<close>

datatype error = TypeError | IndexError | KeyError | ValueError | ZeroDivisionError | IOError

text \<open>Python's \<^verbatim>\<open>round(x)\<close>: the nearest integer, a tie going to the even one.\<close>

definition py_round :: "real \<Rightarrow> int" where
  "py_round x =
     (let f = \<lfloor>x\<rfloor> in
      if x - of_int f < 1 / 2 then f
      else if 1 / 2 < x - of_int f then f + 1
      else if even f then f else f + 1)"

text \<open>Python's \<^verbatim>\<open>round(x, 2)\<close>.\<close>

definition round2 :: "real \<Rightarrow> real" where
  "round2 x = of_int (py_round (x * 100)) / 100"

text \<open>
  A sensitivity is an \<^verbatim>\<open>int\<close> or a \<^verbatim>\<open>float\<close> literal (the catalogue mixes both), and
  \<^verbatim>\<open>str\<close> tells them apart: \<^verbatim>\<open>str(1) = '1'\<close>, \<^verbatim>\<open>str(1.0) = '1.0'\<close>.
\<close>

datatype pynum = PyI int | PyF real

fun num_val :: "pynum \<Rightarrow> real" where
  "num_val (PyI i) = of_int i"
| "num_val (PyF x) = x"

fun str_nat :: "nat \<Rightarrow> string" where
  "str_nat n =
     (if n < 10 then [''0123456789'' ! n]
      else str_nat (n div 10) @ [''0123456789'' ! (n mod 10)])"

declare str_nat.simps [simp del]

definition str_int :: "int \<Rightarrow> string" where
  "str_int i = (if i < 0 then CHR ''-'' # str_nat (nat (- i)) else str_nat (nat i))"

text \<open>
  \<^verbatim>\<open>str(sen)\<close>. The text of a float is the shortest decimal that reads back as the same
  double, a property of the binary format; it is the parameter \<open>repr\<close>.
\<close>

fun py_str :: "(real \<Rightarrow> string) \<Rightarrow> pynum \<Rightarrow> string" where
  "py_str repr (PyI i) = str_int i"
| "py_str repr (PyF x) = repr x"

section \<open>The exposure cost model (utils/aq\_exposures.py)\<close>

definition get_aq_sensitivities :: "bool \<Rightarrow> pynum list" where
  "get_aq_sensitivities subset' =
     (if subset' = True
      then [PyF (2 / 10), PyF (5 / 10), PyI 1, PyI 3, PyI 6, PyI 10, PyI 20]
      else [PyF (2 / 10), PyF (5 / 10), PyI 1, PyI 3, PyI 6, PyI 10, PyI 20, PyI 35])"

definition get_aqi_coeff :: "real \<Rightarrow> real" where
  "get_aqi_coeff aqi = (aqi - 1) / 4"

text \<open>
  \<^verbatim>\<open>get_aqi_cost(length, aqi_coeff=None, aqi=None, sen=1.0)\<close>: an absent keyword argument
  is \<open>None\<close>.
\<close>

definition get_aqi_cost :: "real \<Rightarrow> real option \<Rightarrow> real option \<Rightarrow> real \<Rightarrow> error + real" where
  "get_aqi_cost length' aqi_coeff aqi sen =
     (case aqi_coeff of
        Some c \<Rightarrow> Inr (round2 (length' * c * sen))
      | None \<Rightarrow>
          (case aqi of
             Some a \<Rightarrow> Inr (round2 (length' * get_aqi_coeff a * sen))
           | None \<Rightarrow> Inl ValueError))"

text \<open>
  \<^verbatim>\<open>get_aqi_costs\<close>: the dict comprehension inserts one key per element of \<open>sens\<close>, in
  order, a later element overwriting an earlier one of the same name; an exception in
  an element's cost would abort the comprehension.
\<close>

fun aq_costs_comp ::
  "(real \<Rightarrow> string) \<Rightarrow> real \<times> real \<Rightarrow> real \<Rightarrow> real \<Rightarrow> pynum list \<Rightarrow>
     (string \<rightharpoonup> real) \<Rightarrow> error + (string \<rightharpoonup> real)" where
  "aq_costs_comp repr aqi_exp length' aqi_coeff [] aq_costs = Inr aq_costs"
| "aq_costs_comp repr aqi_exp length' aqi_coeff (sen # sens) aq_costs =
     (case get_aqi_cost (snd aqi_exp) (Some aqi_coeff) None (num_val sen) of
        Inl e \<Rightarrow> Inl e
      | Inr c \<Rightarrow>
          aq_costs_comp repr aqi_exp length' aqi_coeff sens
            (aq_costs(''aqc_'' @ py_str repr sen \<mapsto> round2 (length' + c))))"

definition get_aqi_costs ::
  "(real \<Rightarrow> string) \<Rightarrow> real \<times> real \<Rightarrow> pynum list \<Rightarrow> real \<Rightarrow> error + (string \<rightharpoonup> real)" where
  "get_aqi_costs repr aqi_exp sens length' =
     (let aqi_coeff = get_aqi_coeff (fst aqi_exp)
      in aq_costs_comp repr aqi_exp length' aqi_coeff sens Map.empty)"

definition get_aqi_class :: "real \<Rightarrow> int" where
  "get_aqi_class aqi =
     (if aqi < 2 then 1
      else if aqi < 3 then 2
      else if aqi < 4 then 3
      else if aqi < 5 then 4
      else if aqi \<ge> 5 then 5
      else 0)"

text \<open>\<^verbatim>\<open>get_mean_aqi\<close>: the division raises \<^verbatim>\<open>ZeroDivisionError\<close> on a zero divisor.\<close>

definition get_mean_aqi :: "(real \<times> real) list \<Rightarrow> error + real" where
  "get_mean_aqi aqi_exp_list =
     (let total_dist = sum_list (map snd aqi_exp_list);
          total_aqi = sum_list (map (\<lambda>aqi_exp. fst aqi_exp * snd aqi_exp) aqi_exp_list)
      in if total_dist = 0 then Inl ZeroDivisionError
         else Inr (round2 (total_aqi / total_dist)))"

section \<open>Data frames and their cells\<close>

text \<open>
  The \<^verbatim>\<open>aqi_exp\<close> column of the hourly csv file is read with \<^verbatim>\<open>ast.literal_eval\<close>, so a
  cell can hold any literal, not only a pair of floats. \<open>pyval\<close> has the literals the
  validators tell apart (dicts, sets, bytes and complex numbers are left out). The
  not-a-number float occurs only as the marker pandas writes into a cell that a left
  join could not fill: it is the cell \<open>NaN\<close>, which is a float and not a tuple.
\<close>

datatype pyval =
    PyNone
  | PyBool bool
  | PyInt int
  | PyFloat real
  | PyStr string
  | PyTuple "pyval list"
  | PyList "pyval list"

datatype cell = NaN | Val pyval

text \<open>\<^verbatim>\<open>isinstance(x, tuple)\<close> and \<^verbatim>\<open>isinstance(x, float)\<close>.\<close>

fun is_tuple :: "cell \<Rightarrow> bool" where
  "is_tuple (Val (PyTuple xs)) = True"
| "is_tuple c = False"

fun is_float :: "cell \<Rightarrow> bool" where
  "is_float NaN = True"
| "is_float (Val (PyFloat x)) = True"
| "is_float c = False"

text \<open>
  \<^verbatim>\<open>x[i]\<close>: tuples, lists and strings are indexed, an index past the end raises
  \<^verbatim>\<open>IndexError\<close>, and any other value is not subscriptable.
\<close>

fun getitem :: "cell \<Rightarrow> nat \<Rightarrow> error + cell" where
  "getitem (Val (PyTuple xs)) i = (if i < length xs then Inr (Val (xs ! i)) else Inl IndexError)"
| "getitem (Val (PyList xs)) i = (if i < length xs then Inr (Val (xs ! i)) else Inl IndexError)"
| "getitem (Val (PyStr s)) i = (if i < length s then Inr (Val (PyStr [s ! i])) else Inl IndexError)"
| "getitem c i = Inl TypeError"

text \<open>
  Comparisons of a float with a constant: every comparison with not-a-number is false.
  They are only reached behind an \<^verbatim>\<open>isinstance(x, float)\<close> test.
\<close>

fun float_eq :: "cell \<Rightarrow> real \<Rightarrow> bool" where
  "float_eq (Val (PyFloat x)) c = (x = c)"
| "float_eq v c = False"

fun float_lt :: "cell \<Rightarrow> real \<Rightarrow> bool" where
  "float_lt (Val (PyFloat x)) c = (x < c)"
| "float_lt v c = False"

text \<open>The operand of an arithmetic operator with a float: a number, or \<^verbatim>\<open>TypeError\<close>.\<close>

fun as_num :: "cell \<Rightarrow> error + real" where
  "as_num (Val (PyFloat x)) = Inr x"
| "as_num (Val (PyInt i)) = Inr (of_int i)"
| "as_num (Val (PyBool b)) = Inr (if b then 1 else 0)"
| "as_num c = Inl TypeError"

text \<open>A list comprehension whose element expression may raise: the first exception ends it.\<close>

fun comprehension :: "('a \<Rightarrow> error + 'b) \<Rightarrow> 'a list \<Rightarrow> error + 'b list" where
  "comprehension f [] = Inr []"
| "comprehension f (x # xs) =
     (case f x of
        Inl e \<Rightarrow> Inl e
      | Inr y \<Rightarrow> (case comprehension f xs of Inl e \<Rightarrow> Inl e | Inr ys \<Rightarrow> Inr (y # ys)))"

text \<open>
  A data frame is its \<^verbatim>\<open>uvkey\<close> column, with or without an \<^verbatim>\<open>aqi_exp\<close> column beside it;
  the columns the updater never touches are not modelled.
\<close>

type_synonym uvkey = "int \<times> int \<times> int"

datatype data_frame = Keys "uvkey list" | KeysExps "(uvkey \<times> cell) list"

fun df_uvkey :: "data_frame \<Rightarrow> uvkey list" where
  "df_uvkey (Keys ks) = ks"
| "df_uvkey (KeysExps rows) = map fst rows"

text \<open>\<^verbatim>\<open>df['aqi_exp']\<close> raises \<^verbatim>\<open>KeyError\<close> when the frame has no such column.\<close>

fun df_aqi_exp :: "data_frame \<Rightarrow> error + cell list" where
  "df_aqi_exp (Keys ks) = Inl KeyError"
| "df_aqi_exp (KeysExps rows) = Inr (map snd rows)"

fun has_aqi_exp :: "data_frame \<Rightarrow> bool" where
  "has_aqi_exp (Keys ks) = False"
| "has_aqi_exp (KeysExps rows) = True"

fun drop_aqi_exp :: "data_frame \<Rightarrow> data_frame" where
  "drop_aqi_exp (Keys ks) = Keys ks"
| "drop_aqi_exp (KeysExps rows) = Keys (map fst rows)"

text \<open>
  \<^verbatim>\<open>left.merge(right, on='uvkey', how='left')\<close> for a left frame without \<^verbatim>\<open>aqi_exp\<close>: the
  left rows in their order, each once per matching right row, or once with a missing
  cell when no right row matches.
\<close>

definition merge_row :: "(uvkey \<times> cell) list \<Rightarrow> uvkey \<Rightarrow> (uvkey \<times> cell) list" where
  "merge_row rows k =
     (case filter (\<lambda>r. fst r = k) rows of [] \<Rightarrow> [(k, NaN)] | m # ms \<Rightarrow> m # ms)"

fun merge_left :: "uvkey list \<Rightarrow> data_frame \<Rightarrow> data_frame" where
  "merge_left ks (KeysExps rows) = KeysExps (concat (map (merge_row rows) ks))"
| "merge_left ks (Keys rs) =
     Keys (concat (map (\<lambda>k. case filter (\<lambda>r. r = k) rs of [] \<Rightarrow> [k] | m # ms \<Rightarrow> m # ms) ks))"

section \<open>The exposure validators (utils/aq\_exposures.py)\<close>

text \<open>
  Three functions of the source have an inner function \<^verbatim>\<open>validate_aqi_exp\<close>; each is
  named here after the function around it. This is the one of \<^verbatim>\<open>validate_df_aqi\<close>, on
  a cell of the \<^verbatim>\<open>aqi\<close> column.
\<close>

definition df_aqi_validate_aqi_exp :: "cell \<Rightarrow> nat" where
  "df_aqi_validate_aqi_exp aqi =
     (if \<not> is_float aqi then 4
      else if float_eq aqi 0 then 1
      else if float_lt aqi 0 then 3
      else 0)"

text \<open>
  \<^verbatim>\<open>validate_df_aqi\<close> with \<^verbatim>\<open>debug_to_file=False\<close>, on the \<^verbatim>\<open>aqi\<close> column of the frame.
  The log lines are not modelled; the ratio they print is computed in the branch where
  the row count is not zero.
\<close>

definition validate_df_aqi :: "cell list \<Rightarrow> bool" where
  "validate_df_aqi aqi_col =
     (let aqi_validity = map df_aqi_validate_aqi_exp aqi_col;
          row_count = length aqi_validity;
          aqi_ok_count = length (filter (\<lambda>c. c \<le> 1) aqi_validity)
      in if row_count = aqi_ok_count then True else False)"

text \<open>The inner function of \<^verbatim>\<open>validate_df_aqi_exps\<close>: the validity code of one record.\<close>

definition df_aqi_exps_validate_aqi_exp :: "cell \<Rightarrow> error + nat" where
  "df_aqi_exps_validate_aqi_exp aqi_exp =
     (if \<not> is_tuple aqi_exp then Inr 5
      else case getitem aqi_exp 0 of
        Inl e \<Rightarrow> Inl e
      | Inr a0 \<Rightarrow>
          if \<not> is_float a0 then Inr 5
          else case getitem aqi_exp 1 of
            Inl e \<Rightarrow> Inl e
          | Inr a1 \<Rightarrow>
              if \<not> is_float a1 then Inr 4
              else if float_eq a0 0 then Inr 1
              else if float_lt a0 0 then Inr 3
              else if float_lt a0 1 then Inr 3
              else if float_lt a1 0 then Inr 3
              else Inr 0)"

definition validate_df_aqi_exps :: "data_frame \<Rightarrow> error + bool" where
  "validate_df_aqi_exps edge_gdf =
     (case df_aqi_exp edge_gdf of
        Inl e \<Rightarrow> Inl e
      | Inr col \<Rightarrow>
          (case comprehension df_aqi_exps_validate_aqi_exp col of
             Inl e \<Rightarrow> Inl e
           | Inr aqi_exp_validity \<Rightarrow>
               let row_count = length aqi_exp_validity;
                   aqi_exp_ok_count = length (filter (\<lambda>c. c \<le> 1) aqi_exp_validity)
               in if row_count = aqi_exp_ok_count then Inr True else Inr False))"

section \<open>The graph handler\<close>

text \<open>
  Modelled from the spec: \<^verbatim>\<open>GraphHandler\<close> (\<^verbatim>\<open>utils/graph_handler.py\<close>) is not among the
  sources. The spec's shared edge dataset is a table keyed by \<^verbatim>\<open>uvkey\<close> that holds, per
  edge, the current exposure and the named cost columns. The updater reaches it through
  the handler's field \<^verbatim>\<open>edge_gdf\<close>, whose \<^verbatim>\<open>aqi_exp\<close> column has the exposures, and through
  the attributes of the graph's edges, which have the cost columns.
\<close>

type_synonym attrs = "string \<rightharpoonup> cell"

record graph_handler =
  edge_gdf :: data_frame
  graph :: "uvkey \<rightharpoonup> attrs"

text \<open>
  Modelled from the spec: \<^verbatim>\<open>GraphHandler.set_edge_gdf\<close> is not among the sources. It
  stores the frame it is given as the handler's edge table; the updater reads the joined
  table back from \<^verbatim>\<open>self.G.edge_gdf\<close> in its next two statements.
\<close>

definition set_edge_gdf :: "graph_handler \<Rightarrow> data_frame \<Rightarrow> graph_handler" where
  "set_edge_gdf gh edge_gdf_new = gh\<lparr>edge_gdf := edge_gdf_new\<rparr>"

text \<open>
  Modelled from the spec: \<^verbatim>\<open>GraphHandler.update_edge_attr_to_graph\<close> is not among the
  sources. Called with \<^verbatim>\<open>from_dict=True\<close> and \<^verbatim>\<open>df_attr='aq_updates'\<close>, it goes through the
  rows of the frame it is given and writes the entries of each row's dictionary onto the
  attributes of the edge with the row's key, keeping the edge's other attributes; a key
  that is no edge of the graph is passed over. \<open>set_edge_attributes\<close> is the write of one
  row.
\<close>

definition set_edge_attributes :: "(uvkey \<rightharpoonup> attrs) \<Rightarrow> uvkey \<times> attrs \<Rightarrow> (uvkey \<rightharpoonup> attrs)" where
  "set_edge_attributes g row =
     (case g (fst row) of None \<Rightarrow> g | Some old \<Rightarrow> g(fst row \<mapsto> old ++ snd row))"

definition update_edge_attr_to_graph :: "graph_handler \<Rightarrow> (uvkey \<times> attrs) list \<Rightarrow> graph_handler" where
  "update_edge_attr_to_graph gh rows =
     gh\<lparr>graph := fold (\<lambda>row g. set_edge_attributes g row) rows (graph gh)\<rparr>"

section \<open>The updater (utils/graph\_aqi\_updater.py)\<close>

text \<open>
  The fields of \<^verbatim>\<open>GraphAqiUpdater\<close> that its methods read or write. A \<^verbatim>\<open>datetime\<close> is a
  count of microseconds, its resolution. The logger and the scheduler are not modelled.
\<close>

type_synonym datetime = int

record updater =
  sens :: "pynum list"
  aqi_update_status :: string
  aqi_dir :: string
  aqi_data_wip :: string
  aqi_data_latest :: string
  aqi_data_updatetime :: "datetime option"
  G :: graph_handler

text \<open>
  What one run of the scheduled job reads from outside the process: the clock, formatted
  as \<^verbatim>\<open>%Y-%m-%dT%H\<close>, when the job looks for data; the listing of a directory; the parsed
  csv file at a path, or the exception of reading it; and the clock at the end of an
  update. The directory is taken to exist: listing it does not fail.
\<close>

record env =
  utc_hour :: string
  listdir :: "string \<Rightarrow> string list"
  read_csv :: "string \<Rightarrow> error + data_frame"
  utcnow :: datetime

definition init_updater :: "graph_handler \<Rightarrow> string \<Rightarrow> updater" where
  "init_updater gh dir =
     \<lparr>sens = get_aq_sensitivities False, aqi_update_status = [], aqi_dir = dir,
      aqi_data_wip = [], aqi_data_latest = [], aqi_data_updatetime = None, G = gh\<rparr>"

definition get_expected_aqi_data_name :: "env \<Rightarrow> string" where
  "get_expected_aqi_data_name ev = ''aqi_'' @ utc_hour ev @ ''.csv''"

text \<open>
  \<^verbatim>\<open>total_seconds()\<close> of the difference of two datetimes, rounded to an integer by
  \<^verbatim>\<open>int(round(...))\<close>.
\<close>

definition get_aqi_updated_since_secs :: "updater \<Rightarrow> datetime \<Rightarrow> int option" where
  "get_aqi_updated_since_secs u now =
     (case aqi_data_updatetime u of
        Some t \<Rightarrow> Some (py_round (real_of_int (now - t) / 1000000))
      | None \<Rightarrow> None)"

text \<open>
  \<^verbatim>\<open>bool_graph_aqi_is_up_to_date\<close>. Behind the test for \<open>None\<close> the seconds are a number;
  the last case is never taken.
\<close>

definition bool_graph_aqi_is_up_to_date :: "updater \<Rightarrow> datetime \<Rightarrow> bool" where
  "bool_graph_aqi_is_up_to_date u now =
     (if aqi_data_updatetime u = None then False
      else case get_aqi_updated_since_secs u now of
        Some secs \<Rightarrow> (if secs < 60 * 70 then True else False)
      | None \<Rightarrow> False)"

definition new_aqi_data_available :: "env \<Rightarrow> updater \<Rightarrow> string option \<times> updater" where
  "new_aqi_data_available ev u =
     (let aqi_data_expected = get_expected_aqi_data_name ev;
          (new_aqi_available, status) =
            (if aqi_data_expected = aqi_data_latest u
               then (None, ''latest AQI was updated to graph'')
             else if aqi_data_expected = aqi_data_wip u
               then (None, ''AQI update already in progress'')
             else if aqi_data_expected \<in> set (listdir ev (aqi_dir u))
               then (Some aqi_data_expected, ''AQI update will be done from: '' @ aqi_data_expected)
             else (None, ''expected AQI data is not available ('' @ aqi_data_expected @ '')''))
      in (new_aqi_available,
          if status \<noteq> aqi_update_status u then u\<lparr>aqi_update_status := status\<rparr> else u))"

text \<open>
  \<^verbatim>\<open>get_aq_update_attrs\<close> on a cell of the batch; of \<^verbatim>\<open>self\<close> it reads the sensitivities
  only. The argument \<^verbatim>\<open>aqi_exp[1]\<close> is evaluated
  first, then \<^verbatim>\<open>get_aqi_costs\<close> takes \<^verbatim>\<open>aqi_exp[0]\<close> and subtracts from it; the distance
  meets arithmetic only inside the comprehension, once per sensitivity.
\<close>

definition get_aq_update_attrs :: "(real \<Rightarrow> string) \<Rightarrow> pynum list \<Rightarrow> cell \<Rightarrow> error + attrs" where
  "get_aq_update_attrs repr self_sens aqi_exp =
     (case getitem aqi_exp 1 of
        Inl e \<Rightarrow> Inl e
      | Inr a1 \<Rightarrow>
     (case getitem aqi_exp 0 of
        Inl e \<Rightarrow> Inl e
      | Inr a0 \<Rightarrow>
     (case as_num a0 of
        Inl e \<Rightarrow> Inl e
      | Inr aqi \<Rightarrow>
          if self_sens = [] then Inr [''aqi'' \<mapsto> a0]
          else
     (case as_num a1 of
        Inl e \<Rightarrow> Inl e
      | Inr d \<Rightarrow>
     (case get_aqi_costs repr (aqi, d) self_sens d of
        Inl e \<Rightarrow> Inl e
      | Inr aq_costs \<Rightarrow>
          Inr ([''aqi'' \<mapsto> a0] ++ (map_option (\<lambda>c. Val (PyFloat c)) \<circ> aq_costs)))))))"

text \<open>
  \<^verbatim>\<open>validate_aqi_exps\<close>, the updater's own validator, and its inner function: the types
  of a record are checked, its values are not.
\<close>

definition updater_validate_aqi_exp :: "cell \<Rightarrow> error + bool" where
  "updater_validate_aqi_exp aqi_exp =
     (if \<not> is_tuple aqi_exp then Inr False
      else case getitem aqi_exp 0 of
        Inl e \<Rightarrow> Inl e
      | Inr a0 \<Rightarrow>
          if \<not> is_float a0 then Inr False
          else case getitem aqi_exp 1 of
            Inl e \<Rightarrow> Inl e
          | Inr a1 \<Rightarrow> if \<not> is_float a1 then Inr False else Inr True)"

definition validate_aqi_exps :: "data_frame \<Rightarrow> error + bool" where
  "validate_aqi_exps edge_gdf' =
     (case df_aqi_exp edge_gdf' of
        Inl e \<Rightarrow> Inl e
      | Inr col \<Rightarrow>
          (case comprehension updater_validate_aqi_exp col of
             Inl e \<Rightarrow> Inl e
           | Inr exp_ok \<Rightarrow>
               let row_count = length exp_ok;
                   aqi_exp_count = length (filter (\<lambda>b. b = True) exp_ok)
               in if row_count = aqi_exp_count then Inr True else Inr False))"

text \<open>
  \<^verbatim>\<open>read_update_aqi_to_graph\<close>, in two parts. Each returns the exception that ended it, if
  any, and the updater as that point left it: an assignment made before an exception
  stays made. The first part is the method up to and including \<^verbatim>\<open>self.G.set_edge_gdf\<close>:
  it marks the file as in progress, reads it, validates the batch (a degraded report is
  logged and nothing else), joins the batch onto the edge table and stores the joined
  table. The comparison of the two key counts only logs.
\<close>

definition join_aqi_updates :: "env \<Rightarrow> string \<Rightarrow> updater \<Rightarrow> (error + data_frame) \<times> updater" where
  "join_aqi_updates ev aqi_updates_csv u =
     (let u1 = u\<lparr>aqi_data_wip := aqi_updates_csv\<rparr> in
      case read_csv ev (aqi_dir u1 @ aqi_updates_csv) of
        Inl e \<Rightarrow> (Inl e, u1)
      | Inr edge_aqi_updates \<Rightarrow>
          (case validate_aqi_exps edge_aqi_updates of
             Inl e \<Rightarrow> (Inl e, u1)
           | Inr aqi_data_ok \<Rightarrow>
               let edge_gdf_copy =
                     (if has_aqi_exp (edge_gdf (G u1))
                      then merge_left (df_uvkey (drop_aqi_exp (edge_gdf (G u1)))) edge_aqi_updates
                      else merge_left (df_uvkey (edge_gdf (G u1))) edge_aqi_updates)
               in (Inr edge_aqi_updates, u1\<lparr>G := set_edge_gdf (G u1) edge_gdf_copy\<rparr>)))"

text \<open>
  The second part is the rest of the method: it validates the stored table, computes the
  attributes of every row of the batch, writes them to the graph, and records the
  success.
\<close>

definition update_aq_attrs ::
  "(real \<Rightarrow> string) \<Rightarrow> env \<Rightarrow> string \<Rightarrow> data_frame \<Rightarrow> updater \<Rightarrow> error option \<times> updater" where
  "update_aq_attrs repr ev aqi_updates_csv edge_aqi_updates u =
     (case validate_aqi_exps (edge_gdf (G u)) of
        Inl e \<Rightarrow> (Some e, u)
      | Inr aqi_edge_updates_ok \<Rightarrow>
          (case df_aqi_exp edge_aqi_updates of
             Inl e \<Rightarrow> (Some e, u)
           | Inr col \<Rightarrow>
               (case comprehension (get_aq_update_attrs repr (sens u)) col of
                  Inl e \<Rightarrow> (Some e, u)
                | Inr aq_updates \<Rightarrow>
                    (None,
                     u\<lparr>G := update_edge_attr_to_graph (G u) (zip (df_uvkey edge_aqi_updates) aq_updates),
                       aqi_data_updatetime := Some (utcnow ev),
                       aqi_data_latest := aqi_updates_csv,
                       aqi_data_wip := []\<rparr>))))"

definition read_update_aqi_to_graph ::
  "(real \<Rightarrow> string) \<Rightarrow> env \<Rightarrow> string \<Rightarrow> updater \<Rightarrow> error option \<times> updater" where
  "read_update_aqi_to_graph repr ev aqi_updates_csv u =
     (case join_aqi_updates ev aqi_updates_csv u of
        (Inl e, u1) \<Rightarrow> (Some e, u1)
      | (Inr edge_aqi_updates, u1) \<Rightarrow> update_aq_attrs repr ev aqi_updates_csv edge_aqi_updates u1)"

text \<open>
  \<^verbatim>\<open>maybe_read_update_aqi_to_graph\<close>, the scheduled job: an exception of the update is
  caught, the status says so, and the job sleeps for a minute.
\<close>

definition maybe_read_update_aqi_to_graph :: "(real \<Rightarrow> string) \<Rightarrow> env \<Rightarrow> updater \<Rightarrow> updater" where
  "maybe_read_update_aqi_to_graph repr ev u =
     (case new_aqi_data_available ev u of
        (None, u1) \<Rightarrow> u1
      | (Some new_aqi_data_csv, u1) \<Rightarrow>
          (case read_update_aqi_to_graph repr ev new_aqi_data_csv u1 of
             (None, u2) \<Rightarrow> u2
           | (Some e, u2) \<Rightarrow>
               u2\<lparr>aqi_update_status := ''could not complete AQI update from: '' @ new_aqi_data_csv\<rparr>))"

text \<open>
  The text of the two float literals of the sensitivity catalogue, \<^verbatim>\<open>str(0.2)\<close> and
  \<^verbatim>\<open>str(0.5)\<close>; it stands for \<open>repr\<close> in the concrete runs below, which print no other
  float.
\<close>

definition repr_lit :: "real \<Rightarrow> string" where
  "repr_lit x = (if x = 2 / 10 then ''0.2'' else if x = 5 / 10 then ''0.5'' else ''nan'')"

section \<open>A graph of two edges and an hour of data\<close>

text \<open>
  The concrete runs below start from a freshly constructed updater over a graph of two
  edges whose table has no \<^verbatim>\<open>aqi_exp\<close> column yet. At 17 o'clock on 11 November 2019 the
  cache directory holds the file of that hour. \<open>batch_ok\<close> is the file
  \<^verbatim>\<open>uvkey,aqi_exp\<close> / \<^verbatim>\<open>"(1, 2, 0)","(3.0, 10.0)"\<close>, which has a record for the first edge
  only; in \<open>batch_bad\<close> the exposure cell is \<^verbatim>\<open>2.5\<close>, a float where a pair is expected.
\<close>

definition edge1 :: uvkey where
  "edge1 = (1, 2, 0)"

definition edge2 :: uvkey where
  "edge2 = (2, 3, 0)"

definition handler0 :: graph_handler where
  "handler0 =
     \<lparr>edge_gdf = Keys [edge1, edge2],
      graph = [edge1 \<mapsto> Map.empty, edge2 \<mapsto> Map.empty]\<rparr>"

definition updater0 :: updater where
  "updater0 = init_updater handler0 ''aqi_cache/''"

definition batch_ok :: data_frame where
  "batch_ok = KeysExps [(edge1, Val (PyTuple [PyFloat 3, PyFloat 10]))]"

definition batch_bad :: data_frame where
  "batch_bad = KeysExps [(edge1, Val (PyFloat (5 / 2)))]"

definition files17 :: "string \<Rightarrow> string list" where
  "files17 dir = (if dir = ''aqi_cache/'' then [''aqi_2019-11-11T17.csv''] else [])"

definition csv17 :: "data_frame \<Rightarrow> string \<Rightarrow> error + data_frame" where
  "csv17 batch path =
     (if path = ''aqi_cache/aqi_2019-11-11T17.csv'' then Inr batch else Inl IOError)"

definition env17 :: "data_frame \<Rightarrow> env" where
  "env17 batch =
     \<lparr>utc_hour = ''2019-11-11T17'', listdir = files17, read_csv = csv17 batch,
      utcnow = 1573491600000000\<rparr>"

text \<open>The same updater while the file of the hour before is being applied.\<close>

definition updater16 :: updater where
  "updater16 = updater0\<lparr>aqi_data_wip := ''aqi_2019-11-11T16.csv''\<rparr>"

section \<open>Rounding and list lemmas\<close>

lemma py_round_lower: "x - 1 / 2 \<le> of_int (py_round x)"
  unfolding py_round_def Let_def by (auto; linarith)

lemma py_round_upper: "of_int (py_round x) \<le> x + 1 / 2"
  unfolding py_round_def Let_def by (auto; linarith)

lemma round2_close: "\<bar>round2 x - x\<bar> \<le> 1 / 200"
proof -
  define r where "r = real_of_int (py_round (x * 100))"
  have lo: "x * 100 - 1 / 2 \<le> r" unfolding r_def by (rule py_round_lower)
  have hi: "r \<le> x * 100 + 1 / 2" unfolding r_def by (rule py_round_upper)
  have e: "round2 x = r / 100" unfolding round2_def r_def by simp
  have "x - 1 / 200 \<le> r / 100" using lo by linarith
  moreover have "r / 100 \<le> x + 1 / 200" using hi by linarith
  ultimately show ?thesis unfolding e by linarith
qed

text \<open>Below an even integer, rounding to even decides at the half before it.\<close>

lemma py_round_less_even:
  assumes "even n"
  shows "py_round x < n \<longleftrightarrow> x < of_int n - 1 / 2"
proof -
  define f where "f = \<lfloor>x\<rfloor>"
  have lo: "of_int f \<le> x" and hi: "x < of_int f + 1" unfolding f_def by linarith+
  consider "f \<le> n - 2" | "f = n - 1" | "n \<le> f" by linarith
  then show ?thesis
  proof cases
    case 1
    then have "of_int f \<le> (of_int n :: real) - 2" by (metis of_int_diff of_int_le_iff of_int_numeral)
    then have x: "x < of_int n - 1 / 2" using hi by linarith
    have "py_round x \<le> f + 1" unfolding py_round_def Let_def f_def by simp
    then show ?thesis using 1 x by simp
  next
    case 2
    then have odd: "odd f" using assms by simp
    have fr: "of_int f = (of_int n :: real) - 1" using 2 by simp
    show ?thesis
    proof (cases "x - of_int f < 1 / 2")
      case True
      then have "py_round x = f" unfolding py_round_def Let_def f_def by simp
      then show ?thesis using 2 True fr by simp
    next
      case False
      then have "py_round x = f + 1" using odd unfolding py_round_def Let_def f_def by auto
      then show ?thesis using 2 False fr by simp
    qed
  next
    case 3
    then have "(of_int n :: real) \<le> of_int f" by simp
    then have x: "\<not> x < of_int n - 1 / 2" using lo by linarith
    have "f \<le> py_round x" unfolding py_round_def Let_def f_def by simp
    then show ?thesis using 3 x by simp
  qed
qed

lemma fold_upd_dom:
  "dom (fold (\<lambda>s m. m(f s \<mapsto> g s)) xs m0) = dom m0 \<union> f ` set xs"
  by (induction xs arbitrary: m0) auto

lemma fold_upd_notin:
  "k \<notin> f ` set xs \<Longrightarrow> fold (\<lambda>s m. m(f s \<mapsto> g s)) xs m0 k = m0 k"
  by (induction xs arbitrary: m0) auto

lemma fold_upd_in:
  "inj_on f (set xs) \<Longrightarrow> s \<in> set xs \<Longrightarrow> fold (\<lambda>s m. m(f s \<mapsto> g s)) xs m0 (f s) = Some (g s)"
proof (induction xs arbitrary: m0)
  case Nil
  then show ?case by simp
next
  case (Cons x xs)
  have inj: "inj_on f (set xs)" using Cons.prems(1) by (simp add: inj_on_def)
  show ?case
  proof (cases "s \<in> set xs")
    case True
    then show ?thesis using Cons.IH [OF inj True] by simp
  next
    case False
    then have sx: "s = x" using Cons.prems(2) by simp
    have "f x \<notin> f ` set xs"
      using Cons.prems(1) False sx by (auto simp: inj_on_def)
    then have "fold (\<lambda>s m. m(f s \<mapsto> g s)) xs (m0(f x \<mapsto> g x)) (f x) = (m0(f x \<mapsto> g x)) (f x)"
      by (rule fold_upd_notin)
    then have h: "fold (\<lambda>s m. m(f s \<mapsto> g s)) xs (m0(f x \<mapsto> g x)) (f x) = Some (g x)"
      by simp
    show ?thesis unfolding sx by (simp only: fold_simps o_apply h)
  qed
qed

lemma length_filter_all: "length xs = length (filter P xs) \<longleftrightarrow> (\<forall>x \<in> set xs. P x)"
proof (induction xs)
  case Nil
  then show ?case by simp
next
  case (Cons x xs)
  have le: "length (filter P xs) \<le> length xs" by simp
  show ?case
  proof (cases "P x")
    case True
    then show ?thesis using Cons by simp
  next
    case False
    have ne: "Suc (length xs) \<noteq> length (filter P xs)" using le by linarith
    show ?thesis using False ne by simp
  qed
qed

lemma comprehension_Inl_iff:
  "(\<exists>e. comprehension f xs = Inl e) \<longleftrightarrow> (\<exists>x \<in> set xs. \<exists>e. f x = Inl e)"
  by (induction xs) (auto split: sum.splits)

lemma comprehension_Inr_all:
  "comprehension f xs = Inr ys \<Longrightarrow> (\<forall>y \<in> set ys. P y) \<longleftrightarrow> (\<forall>x \<in> set xs. \<exists>y. f x = Inr y \<and> P y)"
proof (induction xs arbitrary: ys)
  case Nil
  then show ?case by simp
next
  case (Cons x xs)
  from Cons.prems obtain y ys' where fx: "f x = Inr y" and c: "comprehension f xs = Inr ys'"
    and ys: "ys = y # ys'"
    by (auto split: sum.splits)
  show ?case using Cons.IH [OF c] fx ys by simp
qed

lemma comprehension_step_Inl:
  "(case r of Inl e \<Rightarrow> Inl e | Inr ys \<Rightarrow> Inr (y # ys)) = Inl e' \<longleftrightarrow> r = Inl e'"
  by (cases r) auto

lemma comprehension_raise_same:
  assumes "\<And>x e. f x = Inl e \<longleftrightarrow> g x = Inl e"
  shows "comprehension f xs = Inl e \<longleftrightarrow> comprehension g xs = Inl e"
proof (induction xs)
  case Nil
  then show ?case by simp
next
  case (Cons x xs)
  show ?case
  proof (cases "f x")
    case (Inl e')
    then have "g x = Inl e'" using assms by simp
    then show ?thesis using Inl by simp
  next
    case (Inr b)
    have "\<not> (\<exists>e'. g x = Inl e')" using assms [of x] Inr by auto
    then obtain n where "g x = Inr n" by (cases "g x") auto
    then show ?thesis using Inr Cons.IH by (simp add: comprehension_step_Inl)
  qed
qed

section \<open>The cost model\<close>

lemma get_aqi_cost_coeff:
  "get_aqi_cost l (Some c) ao s = Inr (round2 (l * c * s))"
  by (simp add: get_aqi_cost_def)

lemma aq_costs_comp_fold:
  "aq_costs_comp repr e L c sns m0 =
     Inr (fold (\<lambda>sen m. m(''aqc_'' @ py_str repr sen \<mapsto> round2 (L + round2 (snd e * c * num_val sen)))) sns m0)"
  by (induction sns arbitrary: m0) (simp_all add: get_aqi_cost_coeff)

text \<open>
  C10: when the single-cost operation is given both a precomputed coefficient and a raw
  pollution index, the result is \<open>round(l * c * s, 2)\<close>: the coefficient wins and the index
  is not looked at. The operation fails exactly when both are absent, and the failure is
  the \<^verbatim>\<open>ValueError\<close> of its last branch.
\<close>

theorem get_aqi_cost_coeff_precedence:
  "get_aqi_cost l (Some c) (Some a) s = Inr (round2 (l * c * s))
   \<and> ((\<exists>e. get_aqi_cost l co ao s = Inl e) \<longleftrightarrow> co = None \<and> ao = None)
   \<and> get_aqi_cost l None None s = Inl ValueError"
  by (auto simp: get_aqi_cost_def split: option.splits)

theorem get_aqi_cost_coeff_precedence_witness:
  "get_aqi_cost 10 (Some (1 / 2)) (Some 5) 1 = Inr 5
   \<and> get_aqi_cost 10 None (Some 5) 1 = Inr 10
   \<and> get_aqi_cost 10 None None 1 = Inl ValueError"
  using get_aqi_cost_coeff_precedence [of 10 "1 / 2" 5 1 None "Some 5"]
  by (simp add: get_aqi_cost_def get_aqi_coeff_def round2_def py_round_def Let_def)

text \<open>
  C9: the class of a pollution index follows the half-open ranges \<open>[1,2)\<close> to 1,
  \<open>[2,3)\<close> to 2, \<open>[3,4)\<close> to 3, \<open>[4,5)\<close> to 4 and \<open>[5,\<infinity>)\<close> to 5; the classes of 1.5, 2.0,
  4.999 and 5.0 are 1, 2, 4 and 5.
\<close>

theorem get_aqi_class_ranges:
  "(1 \<le> p1 \<and> p1 < 2 \<longrightarrow> get_aqi_class p1 = 1)
   \<and> (2 \<le> p2 \<and> p2 < 3 \<longrightarrow> get_aqi_class p2 = 2)
   \<and> (3 \<le> p3 \<and> p3 < 4 \<longrightarrow> get_aqi_class p3 = 3)
   \<and> (4 \<le> p4 \<and> p4 < 5 \<longrightarrow> get_aqi_class p4 = 4)
   \<and> (5 \<le> p5 \<longrightarrow> get_aqi_class p5 = 5)
   \<and> get_aqi_class (15 / 10) = 1 \<and> get_aqi_class 2 = 2
   \<and> get_aqi_class (4999 / 1000) = 4 \<and> get_aqi_class 5 = 5"
  by (simp add: get_aqi_class_def)

theorem get_aqi_class_ranges_witness:
  "(1::real) \<le> 5 / 4 \<and> (5 / 4 :: real) < 2 \<and> get_aqi_class (5 / 4) = 1
   \<and> (2::real) \<le> 5 / 2 \<and> (5 / 2 :: real) < 3 \<and> get_aqi_class (5 / 2) = 2
   \<and> (3::real) \<le> 7 / 2 \<and> (7 / 2 :: real) < 4 \<and> get_aqi_class (7 / 2) = 3
   \<and> (4::real) \<le> 9 / 2 \<and> (9 / 2 :: real) < 5 \<and> get_aqi_class (9 / 2) = 4
   \<and> (5::real) \<le> 11 / 2 \<and> get_aqi_class (11 / 2) = 5"
  using get_aqi_class_ranges [of "5 / 4" "5 / 2" "7 / 2" "9 / 2" "11 / 2"] by simp

text \<open>From 1 upwards the class is the integer part of the index, capped at 5.\<close>

lemma get_aqi_class_floor: "1 \<le> p \<Longrightarrow> get_aqi_class p = min 5 \<lfloor>p\<rfloor>"
  unfolding get_aqi_class_def by (auto simp: min_def; linarith)

lemma get_aqi_costs_map:
  "\<exists>m. get_aqi_costs repr (aqi, dst) sns L = Inr m
     \<and> dom m = (\<lambda>s. ''aqc_'' @ py_str repr s) ` set sns
     \<and> (inj_on (py_str repr) (set sns) \<longrightarrow>
          (\<forall>s \<in> set sns. m (''aqc_'' @ py_str repr s)
             = Some (round2 (L + round2 (dst * ((aqi - 1) / 4) * num_val s)))))"
proof -
  let ?f = "\<lambda>s. ''aqc_'' @ py_str repr s"
  let ?g = "\<lambda>s. round2 (L + round2 (dst * ((aqi - 1) / 4) * num_val s))"
  let ?m = "fold (\<lambda>s m. m(?f s \<mapsto> ?g s)) sns Map.empty"
  have eq: "get_aqi_costs repr (aqi, dst) sns L = Inr ?m"
    by (simp add: get_aqi_costs_def aq_costs_comp_fold get_aqi_coeff_def)
  have d: "dom ?m = ?f ` set sns"
    using fold_upd_dom [of ?f ?g sns Map.empty] by simp
  have v: "inj_on (py_str repr) (set sns) \<longrightarrow> (\<forall>s \<in> set sns. ?m (?f s) = Some (?g s))"
  proof (intro impI ballI)
    fix s assume i: "inj_on (py_str repr) (set sns)" and s: "s \<in> set sns"
    have "inj_on ?f (set sns)" using i by (auto simp: inj_on_def)
    then show "?m (?f s) = Some (?g s)" using s by (rule fold_upd_in)
  qed
  show ?thesis using eq d v by blast
qed

text \<open>
  C4, as the code has it: the fan-out returns a mapping whose keys are exactly the names
  \<open>aqc_<s>\<close> of the sensitivities, and, the names being distinct for distinct
  sensitivities, the entry of \<open>s\<close> is \<open>round(L + round(distance * ((index - 1) / 4) * s, 2), 2)\<close>:
  the exposure cost is rounded before the base length is added, and the sum is rounded
  again. For the exposure (3.0, 10.0), the sensitivities 1 and 2 and base length 10 the
  entries are 15.0 and 20.0.
\<close>

theorem get_aqi_costs_entries:
  "\<exists>m. get_aqi_costs repr (aqi, dst) sns L = Inr m
     \<and> dom m = (\<lambda>s. ''aqc_'' @ py_str repr s) ` set sns
     \<and> (inj_on (py_str repr) (set sns) \<longrightarrow>
          (\<forall>s \<in> set sns. m (''aqc_'' @ py_str repr s)
             = Some (round2 (L + round2 (dst * ((aqi - 1) / 4) * num_val s)))))"
  by (rule get_aqi_costs_map)

theorem get_aqi_costs_entries_witness:
  "inj_on (py_str repr_lit) (set [PyI 1, PyI 2]) \<and>
   (\<exists>m. get_aqi_costs repr_lit (3, 10) [PyI 1, PyI 2] 10 = Inr m
      \<and> m ''aqc_1'' = Some 15 \<and> m ''aqc_2'' = Some 20)"
proof -
  have i: "inj_on (py_str repr_lit) (set [PyI 1, PyI 2])"
    by (simp add: str_int_def str_nat.simps)
  have r1: "round2 (10 + round2 (10 * ((3 - 1) / 4) * 1)) = 15"
    by (simp add: round2_def py_round_def Let_def)
  have r2: "round2 (10 + round2 (10 * ((3 - 1) / 4) * 2)) = 20"
    by (simp add: round2_def py_round_def Let_def)
  show ?thesis
    using get_aqi_costs_entries [of repr_lit 3 10 "[PyI 1, PyI 2]" 10] i r1 r2
    by (auto simp: str_int_def str_nat.simps)
qed

text \<open>
  The claim's formula rounds once. For the exposure (5.0, 1/256), sensitivity 1 and base
  length 1/256 the code returns 0.0, and the formula gives 0.01.
\<close>

theorem get_aqi_costs_single_rounding_counterexample:
  "get_aqi_costs repr_lit (5, 1 / 256) [PyI 1] (1 / 256) = Inr [''aqc_1'' \<mapsto> 0]
   \<and> round2 (1 / 256 + 1 / 256 * ((5 - 1) / 4) * 1) = 1 / 100"
  by (simp add: get_aqi_costs_def get_aqi_cost_def get_aqi_coeff_def round2_def py_round_def
      Let_def str_int_def str_nat.simps)

text \<open>
  C7, as the code has it: when the total distance is not zero, the mean pollution index
  is the distance-weighted average rounded to two decimals, so within 0.005 of the
  average; the operation fails, with \<^verbatim>\<open>ZeroDivisionError\<close>, exactly when the total distance
  is zero. The mean of (2.0, 10.0) and (4.0, 10.0) is 3.0.
\<close>

theorem get_mean_aqi_rounded:
  "(sum_list (map snd xs) \<noteq> 0 \<longrightarrow>
      get_mean_aqi xs
        = Inr (round2 ((\<Sum>(a, d)\<leftarrow>xs. a * d) / (\<Sum>(a, d)\<leftarrow>xs. d)))
      \<and> (\<exists>m. get_mean_aqi xs = Inr m
            \<and> \<bar>m - (\<Sum>(a, d)\<leftarrow>xs. a * d) / (\<Sum>(a, d)\<leftarrow>xs. d)\<bar> \<le> 1 / 200))
   \<and> (get_mean_aqi xs = Inl ZeroDivisionError \<longleftrightarrow> sum_list (map snd xs) = 0)
   \<and> ((\<exists>e. get_mean_aqi xs = Inl e) \<longleftrightarrow> sum_list (map snd xs) = 0)
   \<and> get_mean_aqi [(2, 10), (4, 10)] = Inr 3"
proof -
  have s1: "(\<Sum>(a, d)\<leftarrow>xs. d) = sum_list (map snd xs)"
    by (induction xs) auto
  have s2: "(\<Sum>(a, d)\<leftarrow>xs. a * d) = sum_list (map (\<lambda>aqi_exp. fst aqi_exp * snd aqi_exp) xs)"
    by (induction xs) auto
  have ex: "get_mean_aqi [(2, 10), (4, 10)] = Inr 3"
    by (simp add: get_mean_aqi_def round2_def py_round_def Let_def)
  show ?thesis
    unfolding s1 s2 using ex round2_close by (auto simp: get_mean_aqi_def Let_def)
qed

theorem get_mean_aqi_rounded_witness:
  "sum_list (map snd [(1, 1), (2, 2 :: real)]) \<noteq> 0
   \<and> get_mean_aqi [(1, 1), (2, 2)] = Inr (167 / 100)
   \<and> get_mean_aqi [(3, 2), (3, - 2)] = Inl ZeroDivisionError
   \<and> get_mean_aqi [] = Inl ZeroDivisionError"
  using get_mean_aqi_rounded [of "[(1, 1), (2, 2)]"] get_mean_aqi_rounded [of "[(3, 2), (3, - 2)]"]
    get_mean_aqi_rounded [of "[]"]
  by (simp add: round2_def py_round_def Let_def)

text \<open>
  The claim's average is not rounded. For (1.0, 1.0) and (2.0, 2.0) the average is 5/3,
  and the code returns 1.67.
\<close>

theorem get_mean_aqi_unrounded_counterexample:
  "get_mean_aqi [(1, 1), (2, 2)] \<noteq> Inr ((1 * 1 + 2 * 2) / (1 + 2))"
  by (simp add: get_mean_aqi_def round2_def py_round_def Let_def)

section \<open>The validators\<close>

lemma validate_aqi_exp_raise_same:
  "updater_validate_aqi_exp c = Inl e \<longleftrightarrow> df_aqi_exps_validate_aqi_exp c = Inl e"
  by (simp add: updater_validate_aqi_exp_def df_aqi_exps_validate_aqi_exp_def split: sum.splits)

lemma validate_aqi_exp_types:
  "updater_validate_aqi_exp c = Inr b \<longleftrightarrow>
     (\<exists>n. df_aqi_exps_validate_aqi_exp c = Inr n \<and> (b \<longleftrightarrow> n \<in> {0, 1, 3}))"
  by (simp add: updater_validate_aqi_exp_def df_aqi_exps_validate_aqi_exp_def split: sum.splits)

lemma validity_codes: "df_aqi_exps_validate_aqi_exp c = Inr n \<Longrightarrow> n \<in> {0, 1, 3, 4, 5}"
  by (simp add: df_aqi_exps_validate_aqi_exp_def split: sum.splits if_splits)

lemma validate_aqi_exps_Inr:
  assumes "validate_aqi_exps (KeysExps rows) = Inr ok"
  shows "ok \<longleftrightarrow> (\<forall>c \<in> set (map snd rows). \<exists>b. updater_validate_aqi_exp c = Inr b \<and> b = True)"
proof -
  from assms obtain bs where c: "comprehension updater_validate_aqi_exp (map snd rows) = Inr bs"
    and ok: "ok \<longleftrightarrow> length bs = length (filter (\<lambda>b. b = True) bs)"
    by (auto simp: validate_aqi_exps_def Let_def split: sum.splits if_splits)
  show ?thesis unfolding ok length_filter_all by (rule comprehension_Inr_all [OF c])
qed

lemma validate_df_aqi_exps_Inr:
  assumes "validate_df_aqi_exps (KeysExps rows) = Inr ok"
  shows "ok \<longleftrightarrow> (\<forall>c \<in> set (map snd rows). \<exists>n. df_aqi_exps_validate_aqi_exp c = Inr n \<and> n \<le> 1)"
proof -
  from assms obtain ns where c: "comprehension df_aqi_exps_validate_aqi_exp (map snd rows) = Inr ns"
    and ok: "ok \<longleftrightarrow> length ns = length (filter (\<lambda>n. n \<le> 1) ns)"
    by (auto simp: validate_df_aqi_exps_def Let_def split: sum.splits if_splits)
  show ?thesis unfolding ok length_filter_all by (rule comprehension_Inr_all [OF c])
qed

lemma validators_raise_same:
  "validate_aqi_exps df = Inl e \<longleftrightarrow> validate_df_aqi_exps df = Inl e"
proof (cases df)
  case (Keys ks)
  then show ?thesis by (simp add: validate_aqi_exps_def validate_df_aqi_exps_def)
next
  case (KeysExps rows)
  have c: "comprehension updater_validate_aqi_exp (map snd rows) = Inl e
      \<longleftrightarrow> comprehension df_aqi_exps_validate_aqi_exp (map snd rows) = Inl e"
    by (rule comprehension_raise_same) (rule validate_aqi_exp_raise_same)
  have l: "validate_aqi_exps df = Inl e
      \<longleftrightarrow> comprehension updater_validate_aqi_exp (map snd rows) = Inl e"
    using KeysExps by (simp add: validate_aqi_exps_def Let_def split: sum.splits)
  have r: "validate_df_aqi_exps df = Inl e
      \<longleftrightarrow> comprehension df_aqi_exps_validate_aqi_exp (map snd rows) = Inl e"
    using KeysExps by (simp add: validate_df_aqi_exps_def Let_def split: sum.splits)
  show ?thesis using c l r by simp
qed

text \<open>
  The validator of the exposure module raises on exactly the batches that hold an empty
  tuple or a tuple of a single float, and what it raises is \<^verbatim>\<open>IndexError\<close>.
\<close>

lemma validate_aqi_exp_raises_iff:
  "df_aqi_exps_validate_aqi_exp c = Inl e \<longleftrightarrow>
     e = IndexError \<and> (c = Val (PyTuple []) \<or> (\<exists>x. c = Val (PyTuple [PyFloat x])))"
proof (cases c)
  case NaN
  then show ?thesis by (simp add: df_aqi_exps_validate_aqi_exp_def)
next
  case (Val v)
  show ?thesis
  proof (cases v)
    case (PyTuple xs)
    show ?thesis
    proof (cases xs)
      case Nil
      then show ?thesis using Val PyTuple by (auto simp: df_aqi_exps_validate_aqi_exp_def)
    next
      case (Cons a ys)
      show ?thesis
      proof (cases ys)
        case Nil
        then show ?thesis using Val PyTuple Cons
          by (cases a) (auto simp: df_aqi_exps_validate_aqi_exp_def)
      next
        case (Cons b zs)
        then show ?thesis using Val PyTuple \<open>xs = a # ys\<close>
          by (simp add: df_aqi_exps_validate_aqi_exp_def)
      qed
    qed
  qed (simp_all add: Val df_aqi_exps_validate_aqi_exp_def)
qed

lemma validate_df_aqi_exps_raises_iff:
  "(\<exists>e. validate_df_aqi_exps (KeysExps rows) = Inl e) \<longleftrightarrow>
     (\<exists>r \<in> set rows. snd r = Val (PyTuple []) \<or> (\<exists>x. snd r = Val (PyTuple [PyFloat x])))"
proof -
  have "(\<exists>e. validate_df_aqi_exps (KeysExps rows) = Inl e)
      \<longleftrightarrow> (\<exists>e. comprehension df_aqi_exps_validate_aqi_exp (map snd rows) = Inl e)"
    by (auto simp: validate_df_aqi_exps_def Let_def split: sum.splits)
  also have "\<dots> \<longleftrightarrow> (\<exists>c \<in> set (map snd rows). \<exists>e. df_aqi_exps_validate_aqi_exp c = Inl e)"
    by (rule comprehension_Inl_iff)
  also have "\<dots> \<longleftrightarrow> (\<exists>r \<in> set rows. snd r = Val (PyTuple []) \<or> (\<exists>x. snd r = Val (PyTuple [PyFloat x])))"
    by (simp add: validate_aqi_exp_raises_iff)
  finally show ?thesis .
qed

text \<open>
  C5, as the code has it: both validation passes of an update cycle run the updater's
  own validator, which checks types only. When it returns, it reports the batch as
  acceptable if and only if every record's validity code is 0, 1 or 3: a type mismatch
  (codes 4 and 5) degrades the batch, an out-of-range value (code 3) does not. The
  validator of the exposure module reports a batch as acceptable if and only if every
  code is 0 or 1. The two raise on the same batches.
\<close>

theorem validate_aqi_exps_types_only:
  "(validate_aqi_exps (KeysExps rows) = Inr ok \<longrightarrow>
      (ok \<longleftrightarrow> (\<forall>c \<in> set (map snd rows). df_aqi_exps_validate_aqi_exp c \<in> {Inr 0, Inr 1, Inr 3})))
   \<and> (validate_df_aqi_exps (KeysExps rows) = Inr ok' \<longrightarrow>
      (ok' \<longleftrightarrow> (\<forall>c \<in> set (map snd rows). df_aqi_exps_validate_aqi_exp c \<in> {Inr 0, Inr 1})))
   \<and> (validate_aqi_exps (KeysExps rows) = Inl e \<longleftrightarrow> validate_df_aqi_exps (KeysExps rows) = Inl e)"
proof (intro conjI impI)
  assume a: "validate_aqi_exps (KeysExps rows) = Inr ok"
  have "(\<exists>b. updater_validate_aqi_exp c = Inr b \<and> b = True)
      \<longleftrightarrow> df_aqi_exps_validate_aqi_exp c \<in> {Inr 0, Inr 1, Inr 3}" for c
    by (auto simp: validate_aqi_exp_types)
  then show "ok \<longleftrightarrow> (\<forall>c \<in> set (map snd rows). df_aqi_exps_validate_aqi_exp c \<in> {Inr 0, Inr 1, Inr 3})"
    using validate_aqi_exps_Inr [OF a] by simp
next
  assume a: "validate_df_aqi_exps (KeysExps rows) = Inr ok'"
  have "(\<exists>n. df_aqi_exps_validate_aqi_exp c = Inr n \<and> n \<le> 1)
      \<longleftrightarrow> df_aqi_exps_validate_aqi_exp c \<in> {Inr 0, Inr 1}" for c
  proof
    assume "\<exists>n. df_aqi_exps_validate_aqi_exp c = Inr n \<and> n \<le> 1"
    then obtain n where n: "df_aqi_exps_validate_aqi_exp c = Inr n" "n \<le> 1" by blast
    then have "n = 0 \<or> n = 1" by linarith
    then show "df_aqi_exps_validate_aqi_exp c \<in> {Inr 0, Inr 1}" using n by auto
  next
    assume "df_aqi_exps_validate_aqi_exp c \<in> {Inr 0, Inr 1}"
    then show "\<exists>n. df_aqi_exps_validate_aqi_exp c = Inr n \<and> n \<le> 1" by auto
  qed
  then show "ok' \<longleftrightarrow> (\<forall>c \<in> set (map snd rows). df_aqi_exps_validate_aqi_exp c \<in> {Inr 0, Inr 1})"
    using validate_df_aqi_exps_Inr [OF a] by simp
next
  show "validate_aqi_exps (KeysExps rows) = Inl e \<longleftrightarrow> validate_df_aqi_exps (KeysExps rows) = Inl e"
    by (rule validators_raise_same)
qed

theorem validate_aqi_exps_types_only_witness:
  "validate_aqi_exps (KeysExps [((1, 2, 0), Val (PyTuple [PyFloat (- 1), PyFloat 5])),
                                ((2, 1, 0), Val (PyTuple [PyFloat 3, PyFloat 10]))]) = Inr True
   \<and> df_aqi_exps_validate_aqi_exp (Val (PyTuple [PyFloat (- 1), PyFloat 5])) = Inr 3
   \<and> df_aqi_exps_validate_aqi_exp (Val (PyTuple [PyFloat 3, PyFloat 10])) = Inr 0
   \<and> validate_df_aqi_exps (KeysExps [((1, 2, 0), Val (PyTuple [PyFloat (- 1), PyFloat 5])),
                                     ((2, 1, 0), Val (PyTuple [PyFloat 3, PyFloat 10]))]) = Inr False"
  using validate_aqi_exps_types_only
    [of "[((1, 2, 0), Val (PyTuple [PyFloat (- 1), PyFloat 5])),
          ((2, 1, 0), Val (PyTuple [PyFloat 3, PyFloat 10]))]" True False]
  by (simp add: validate_aqi_exps_def validate_df_aqi_exps_def updater_validate_aqi_exp_def
      df_aqi_exps_validate_aqi_exp_def Let_def)

text \<open>
  A batch whose only record is (-1.0, 5.0), of validity code 3, passes the validation of
  the update cycle.
\<close>

theorem validate_aqi_exps_range_counterexample:
  "validate_aqi_exps (KeysExps [((1, 2, 0), Val (PyTuple [PyFloat (- 1), PyFloat 5]))]) = Inr True
   \<and> df_aqi_exps_validate_aqi_exp (Val (PyTuple [PyFloat (- 1), PyFloat 5])) = Inr 3"
  by (simp add: validate_aqi_exps_def updater_validate_aqi_exp_def
      df_aqi_exps_validate_aqi_exp_def Let_def)

text \<open>
  C6: the exposure validation should return a report for every batch, whatever the shape
  of its records. On a record that is the empty tuple, or a tuple of one float, it
  indexes past the end of the tuple and raises \<^verbatim>\<open>IndexError\<close>.
\<close>

theorem validate_df_aqi_exps_short_tuple_raises:
  "validate_df_aqi_exps (KeysExps [((1, 2, 0), Val (PyTuple []))]) = Inl IndexError
   \<and> validate_df_aqi_exps (KeysExps [((1, 2, 0), Val (PyTuple [PyFloat (5 / 2)]))]) = Inl IndexError"
  by (simp add: validate_df_aqi_exps_def df_aqi_exps_validate_aqi_exp_def)

section \<open>The update cycle\<close>

lemma df_uvkey_drop: "df_uvkey (drop_aqi_exp df) = df_uvkey df"
  by (cases df) simp_all

lemma join_aqi_updates_Inl:
  "join_aqi_updates ev csv u = (Inl e, u1) \<Longrightarrow>
     u1 = u\<lparr>aqi_data_wip := csv\<rparr>
     \<and> (read_csv ev (aqi_dir u @ csv) = Inl e
        \<or> (\<exists>b. read_csv ev (aqi_dir u @ csv) = Inr b \<and> validate_aqi_exps b = Inl e))"
  by (auto simp: join_aqi_updates_def Let_def split: sum.splits)

lemma join_aqi_updates_Inr:
  "join_aqi_updates ev csv u = (Inr b, u1) \<Longrightarrow>
     read_csv ev (aqi_dir u @ csv) = Inr b
     \<and> (\<exists>ok. validate_aqi_exps b = Inr ok)
     \<and> u1 = u\<lparr>aqi_data_wip := csv,
              G := (G u)\<lparr>edge_gdf := merge_left (df_uvkey (edge_gdf (G u))) b\<rparr>\<rparr>"
  by (auto simp: join_aqi_updates_def Let_def set_edge_gdf_def df_uvkey_drop split: sum.splits)

lemma update_aq_attrs_Some:
  "update_aq_attrs repr ev csv b u = (Some e, u') \<Longrightarrow> u' = u"
  by (auto simp: update_aq_attrs_def split: sum.splits)

lemma update_aq_attrs_None:
  "update_aq_attrs repr ev csv b u = (None, u') \<Longrightarrow>
     \<exists>col aq. df_aqi_exp b = Inr col
       \<and> comprehension (get_aq_update_attrs repr (sens u)) col = Inr aq
       \<and> u' = u\<lparr>G := update_edge_attr_to_graph (G u) (zip (df_uvkey b) aq),
                 aqi_data_updatetime := Some (utcnow ev),
                 aqi_data_latest := csv,
                 aqi_data_wip := []\<rparr>"
  by (auto simp: update_aq_attrs_def split: sum.splits)

lemma read_update_Some:
  assumes "read_update_aqi_to_graph repr ev csv u = (Some e, u')"
  shows "(\<exists>e1. fst (join_aqi_updates ev csv u) = Inl e1) \<and> u' = u\<lparr>aqi_data_wip := csv\<rparr>
       \<or> (\<exists>b. fst (join_aqi_updates ev csv u) = Inr b \<and>
            u' = u\<lparr>aqi_data_wip := csv,
                    G := (G u)\<lparr>edge_gdf := merge_left (df_uvkey (edge_gdf (G u))) b\<rparr>\<rparr>)"
proof (cases "join_aqi_updates ev csv u")
  case (Pair r u1)
  show ?thesis
  proof (cases r)
    case (Inl e1)
    then have "u1 = u\<lparr>aqi_data_wip := csv\<rparr>" using Pair join_aqi_updates_Inl by blast
    moreover have "u' = u1" using assms Pair Inl by (simp add: read_update_aqi_to_graph_def)
    ultimately show ?thesis using Pair Inl by simp
  next
    case (Inr b)
    then have u1: "u1 = u\<lparr>aqi_data_wip := csv,
              G := (G u)\<lparr>edge_gdf := merge_left (df_uvkey (edge_gdf (G u))) b\<rparr>\<rparr>"
      using Pair join_aqi_updates_Inr by blast
    have "update_aq_attrs repr ev csv b u1 = (Some e, u')"
      using assms Pair Inr by (simp add: read_update_aqi_to_graph_def)
    then have "u' = u1" by (rule update_aq_attrs_Some)
    then show ?thesis using Pair Inr u1 by simp
  qed
qed

lemma read_update_None:
  assumes "read_update_aqi_to_graph repr ev csv u = (None, u')"
  shows "\<exists>b col aq. read_csv ev (aqi_dir u @ csv) = Inr b
       \<and> df_aqi_exp b = Inr col
       \<and> comprehension (get_aq_update_attrs repr (sens u)) col = Inr aq
       \<and> u' = u\<lparr>G := \<lparr>edge_gdf = merge_left (df_uvkey (edge_gdf (G u))) b,
                        graph = fold (\<lambda>row g. set_edge_attributes g row) (zip (df_uvkey b) aq) (graph (G u))\<rparr>,
                 aqi_data_updatetime := Some (utcnow ev),
                 aqi_data_latest := csv,
                 aqi_data_wip := []\<rparr>"
proof (cases "join_aqi_updates ev csv u")
  case (Pair r u1)
  show ?thesis
  proof (cases r)
    case (Inl e1)
    then show ?thesis using assms Pair by (simp add: read_update_aqi_to_graph_def)
  next
    case (Inr b)
    then have rd: "read_csv ev (aqi_dir u @ csv) = Inr b"
      and u1: "u1 = u\<lparr>aqi_data_wip := csv,
              G := (G u)\<lparr>edge_gdf := merge_left (df_uvkey (edge_gdf (G u))) b\<rparr>\<rparr>"
      using Pair join_aqi_updates_Inr by blast+
    have "update_aq_attrs repr ev csv b u1 = (None, u')"
      using assms Pair Inr by (simp add: read_update_aqi_to_graph_def)
    then obtain col aq where c: "df_aqi_exp b = Inr col"
      and a: "comprehension (get_aq_update_attrs repr (sens u1)) col = Inr aq"
      and u': "u' = u1\<lparr>G := update_edge_attr_to_graph (G u1) (zip (df_uvkey b) aq),
                 aqi_data_updatetime := Some (utcnow ev),
                 aqi_data_latest := csv,
                 aqi_data_wip := []\<rparr>"
      using update_aq_attrs_None by blast
    have "u' = u\<lparr>G := \<lparr>edge_gdf = merge_left (df_uvkey (edge_gdf (G u))) b,
                        graph = fold (\<lambda>row g. set_edge_attributes g row) (zip (df_uvkey b) aq) (graph (G u))\<rparr>,
                 aqi_data_updatetime := Some (utcnow ev),
                 aqi_data_latest := csv,
                 aqi_data_wip := []\<rparr>"
      unfolding u' u1 by (simp add: update_edge_attr_to_graph_def)
    then show ?thesis using rd c a u1 by auto
  qed
qed

text \<open>The definitions that a concrete run unfolds.\<close>

lemmas run_defs =
  read_update_aqi_to_graph_def join_aqi_updates_def update_aq_attrs_def
  maybe_read_update_aqi_to_graph_def new_aqi_data_available_def get_expected_aqi_data_name_def
  env17_def files17_def csv17_def batch_ok_def batch_bad_def updater0_def updater16_def
  init_updater_def handler0_def edge1_def edge2_def
  validate_aqi_exps_def updater_validate_aqi_exp_def get_aq_update_attrs_def
  get_aqi_costs_def get_aqi_cost_def get_aqi_coeff_def get_aq_sensitivities_def
  set_edge_gdf_def update_edge_attr_to_graph_def set_edge_attributes_def merge_row_def
  round2_def py_round_def repr_lit_def str_int_def str_nat.simps Let_def

section \<open>Freshness\<close>

lemma updated_within_70_min:
  "py_round (real_of_int d / 1000000) < 60 * 70 \<longleftrightarrow> 2 * d < 8399000000"
proof -
  have "py_round (real_of_int d / 1000000) < 4200 \<longleftrightarrow> real_of_int d / 1000000 < of_int 4200 - 1 / 2"
    by (rule py_round_less_even) simp
  also have "\<dots> \<longleftrightarrow> real_of_int (2 * d) < real_of_int 8399000000"
    by (simp add: field_simps)
  also have "\<dots> \<longleftrightarrow> 2 * d < 8399000000"
    by (simp only: of_int_less_iff)
  finally show ?thesis by simp
qed

lemma up_to_date_iff:
  "bool_graph_aqi_is_up_to_date u now \<longleftrightarrow>
     (case aqi_data_updatetime u of None \<Rightarrow> False | Some t \<Rightarrow> 2 * (now - t) < 8399000000)"
proof (cases "aqi_data_updatetime u")
  case None
  then show ?thesis by (simp add: bool_graph_aqi_is_up_to_date_def)
next
  case (Some t)
  have "bool_graph_aqi_is_up_to_date u now
      \<longleftrightarrow> py_round (real_of_int (now - t) / 1000000) < 60 * 70"
    using Some
    by (simp add: bool_graph_aqi_is_up_to_date_def get_aqi_updated_since_secs_def del: of_int_diff)
  also have "\<dots> \<longleftrightarrow> 2 * (now - t) < 8399000000" by (rule updated_within_70_min)
  finally show ?thesis using Some by simp
qed

text \<open>
  C8, as the code has it: the freshness query compares the elapsed seconds, rounded to
  the nearest integer (a tie going to the even one), with 4200. It returns true if and
  only if the time of the last update is not \<open>None\<close> and less than 4199.5 seconds have passed
  since, half a second short of 70 minutes. It is false before any update has completed,
  true at the moment a cycle completes, and false once 70 minutes have passed.
\<close>

theorem bool_graph_aqi_is_up_to_date_rounded:
  "(bool_graph_aqi_is_up_to_date u now \<longleftrightarrow>
      (case aqi_data_updatetime u of None \<Rightarrow> False | Some t \<Rightarrow> 2 * (now - t) < 8399000000))
   \<and> \<not> bool_graph_aqi_is_up_to_date (init_updater gh dir) now
   \<and> (read_update_aqi_to_graph repr ev csv u0 = (None, u1) \<longrightarrow>
        bool_graph_aqi_is_up_to_date u1 (utcnow ev))
   \<and> (aqi_data_updatetime u = Some t \<and> 70 * 60 * 1000000 \<le> now - t \<longrightarrow>
        \<not> bool_graph_aqi_is_up_to_date u now)"
proof (intro conjI impI)
  show "bool_graph_aqi_is_up_to_date u now \<longleftrightarrow>
      (case aqi_data_updatetime u of None \<Rightarrow> False | Some t \<Rightarrow> 2 * (now - t) < 8399000000)"
    by (rule up_to_date_iff)
  show "\<not> bool_graph_aqi_is_up_to_date (init_updater gh dir) now"
    by (simp add: up_to_date_iff init_updater_def)
next
  assume "read_update_aqi_to_graph repr ev csv u0 = (None, u1)"
  then have "aqi_data_updatetime u1 = Some (utcnow ev)"
    using read_update_None by fastforce
  then show "bool_graph_aqi_is_up_to_date u1 (utcnow ev)" by (simp add: up_to_date_iff)
next
  assume "aqi_data_updatetime u = Some t \<and> 70 * 60 * 1000000 \<le> now - t"
  then show "\<not> bool_graph_aqi_is_up_to_date u now" by (simp add: up_to_date_iff)
qed

theorem bool_graph_aqi_is_up_to_date_rounded_witness:
  "fst (read_update_aqi_to_graph repr_lit (env17 batch_ok) ''aqi_2019-11-11T17.csv'' updater0) = None
   \<and> bool_graph_aqi_is_up_to_date
        (snd (read_update_aqi_to_graph repr_lit (env17 batch_ok) ''aqi_2019-11-11T17.csv'' updater0))
        (utcnow (env17 batch_ok))
   \<and> bool_graph_aqi_is_up_to_date (updater0\<lparr>aqi_data_updatetime := Some 0\<rparr>) 4199000000
   \<and> \<not> bool_graph_aqi_is_up_to_date (updater0\<lparr>aqi_data_updatetime := Some 0\<rparr>) 4200000000
   \<and> \<not> bool_graph_aqi_is_up_to_date updater0 0"
proof -
  let ?run = "read_update_aqi_to_graph repr_lit (env17 batch_ok) ''aqi_2019-11-11T17.csv'' updater0"
  have f: "fst ?run = None" by (simp add: run_defs)
  then have r: "?run = (None, snd ?run)" by (metis prod.collapse)
  have t: "aqi_data_updatetime (updater0\<lparr>aqi_data_updatetime := Some 0\<rparr>) = Some 0
      \<and> (70 * 60 * 1000000 :: int) \<le> 4200000000 - 0"
    by simp
  have n: "aqi_data_updatetime updater0 = None" by (simp add: updater0_def init_updater_def)
  show ?thesis
    using f r t n
      bool_graph_aqi_is_up_to_date_rounded
        [of "updater0\<lparr>aqi_data_updatetime := Some 0\<rparr>" 4200000000 handler0 "''aqi_cache/''"
          repr_lit "env17 batch_ok" "''aqi_2019-11-11T17.csv''" updater0 "snd ?run" 0]
      bool_graph_aqi_is_up_to_date_rounded
        [of "updater0\<lparr>aqi_data_updatetime := Some 0\<rparr>" 4199000000 handler0 "''aqi_cache/''"
          repr_lit "env17 batch_ok" "''aqi_2019-11-11T17.csv''" updater0 "snd ?run" 0]
      bool_graph_aqi_is_up_to_date_rounded
        [of updater0 0 handler0 "''aqi_cache/''"
          repr_lit "env17 batch_ok" "''aqi_2019-11-11T17.csv''" updater0 "snd ?run" 0]
    by simp
qed

text \<open>
  4199.6 seconds after an update less than 70 minutes have passed, and the query returns
  false.
\<close>

theorem bool_graph_aqi_is_up_to_date_counterexample:
  "bool_graph_aqi_is_up_to_date (updater0\<lparr>aqi_data_updatetime := Some 0\<rparr>) 4199600000 = False
   \<and> aqi_data_updatetime (updater0\<lparr>aqi_data_updatetime := Some 0\<rparr>) = Some 0
   \<and> (4199600000 :: int) - 0 < 70 * 60 * 1000000"
  by (simp add: bool_graph_aqi_is_up_to_date_def get_aqi_updated_since_secs_def py_round_def Let_def)

section \<open>Single flight\<close>

lemma new_aqi_data_available_Some:
  "fst (new_aqi_data_available ev u) = Some f \<longleftrightarrow>
     f = get_expected_aqi_data_name ev \<and> f \<noteq> aqi_data_latest u \<and> f \<noteq> aqi_data_wip u
     \<and> f \<in> set (listdir ev (aqi_dir u))"
  by (auto simp: new_aqi_data_available_def Let_def)

lemma new_aqi_data_available_state:
  "snd (new_aqi_data_available ev u)\<lparr>aqi_update_status := s\<rparr> = u\<lparr>aqi_update_status := s\<rparr>"
  by (simp add: new_aqi_data_available_def Let_def split: prod.splits)

lemma maybe_read_None:
  assumes "fst (new_aqi_data_available ev u) = None"
  shows "maybe_read_update_aqi_to_graph repr ev u = snd (new_aqi_data_available ev u)"
proof (cases "new_aqi_data_available ev u")
  case (Pair r u1)
  then show ?thesis using assms by (simp add: maybe_read_update_aqi_to_graph_def)
qed

text \<open>
  C3, as the code has it: the guard is per file. The job's check names a file to apply if
  and only if the file expected for the current hour is neither the latest applied nor
  the one in progress and is present in the directory. While a cycle is in flight, a
  trigger for the same file performs no merge: the dataset and every field of the
  updater but the status message are unchanged.
\<close>

theorem single_flight_per_file:
  "(fst (new_aqi_data_available ev u) = Some f \<longleftrightarrow>
      f = get_expected_aqi_data_name ev \<and> f \<noteq> aqi_data_latest u \<and> f \<noteq> aqi_data_wip u
      \<and> f \<in> set (listdir ev (aqi_dir u)))
   \<and> (get_expected_aqi_data_name ev = aqi_data_wip u \<longrightarrow>
        (maybe_read_update_aqi_to_graph repr ev u)\<lparr>aqi_update_status := s\<rparr>
          = u\<lparr>aqi_update_status := s\<rparr>
        \<and> G (maybe_read_update_aqi_to_graph repr ev u) = G u)"
proof (intro conjI impI)
  show "fst (new_aqi_data_available ev u) = Some f \<longleftrightarrow>
      f = get_expected_aqi_data_name ev \<and> f \<noteq> aqi_data_latest u \<and> f \<noteq> aqi_data_wip u
      \<and> f \<in> set (listdir ev (aqi_dir u))"
    by (rule new_aqi_data_available_Some)
next
  assume w: "get_expected_aqi_data_name ev = aqi_data_wip u"
  have "fst (new_aqi_data_available ev u) = None"
  proof (cases "fst (new_aqi_data_available ev u)")
    case None
    then show ?thesis .
  next
    case (Some f')
    then have "f' = get_expected_aqi_data_name ev \<and> f' \<noteq> aqi_data_wip u"
      using new_aqi_data_available_Some [of ev u f'] by blast
    then show ?thesis using w by simp
  qed
  then have m: "maybe_read_update_aqi_to_graph repr ev u = snd (new_aqi_data_available ev u)"
    by (rule maybe_read_None)
  show e: "(maybe_read_update_aqi_to_graph repr ev u)\<lparr>aqi_update_status := s\<rparr>
      = u\<lparr>aqi_update_status := s\<rparr>"
    unfolding m by (rule new_aqi_data_available_state)
  have "G ((maybe_read_update_aqi_to_graph repr ev u)\<lparr>aqi_update_status := s\<rparr>)
      = G (u\<lparr>aqi_update_status := s\<rparr>)"
    by (simp only: e)
  then show "G (maybe_read_update_aqi_to_graph repr ev u) = G u" by simp
qed

theorem single_flight_per_file_witness:
  "get_expected_aqi_data_name (env17 batch_ok)
     = aqi_data_wip (updater0\<lparr>aqi_data_wip := ''aqi_2019-11-11T17.csv''\<rparr>)
   \<and> G (maybe_read_update_aqi_to_graph repr_lit (env17 batch_ok)
          (updater0\<lparr>aqi_data_wip := ''aqi_2019-11-11T17.csv''\<rparr>)) = handler0
   \<and> fst (new_aqi_data_available (env17 batch_ok) updater16) = Some ''aqi_2019-11-11T17.csv''"
proof -
  have h: "get_expected_aqi_data_name (env17 batch_ok)
     = aqi_data_wip (updater0\<lparr>aqi_data_wip := ''aqi_2019-11-11T17.csv''\<rparr>)"
    by (simp add: get_expected_aqi_data_name_def env17_def)
  have g: "G (updater0\<lparr>aqi_data_wip := ''aqi_2019-11-11T17.csv''\<rparr>) = handler0"
    by (simp add: updater0_def init_updater_def)
  have a: "''aqi_2019-11-11T17.csv'' = get_expected_aqi_data_name (env17 batch_ok)
      \<and> ''aqi_2019-11-11T17.csv'' \<noteq> aqi_data_latest updater16
      \<and> ''aqi_2019-11-11T17.csv'' \<noteq> aqi_data_wip updater16
      \<and> ''aqi_2019-11-11T17.csv'' \<in> set (listdir (env17 batch_ok) (aqi_dir updater16))"
    by (simp add: get_expected_aqi_data_name_def env17_def files17_def updater16_def updater0_def
        init_updater_def)
  note t17 = single_flight_per_file [where ev = "env17 batch_ok"
        and u = "updater0\<lparr>aqi_data_wip := ''aqi_2019-11-11T17.csv''\<rparr>"
        and f = "''aqi_2019-11-11T17.csv''" and repr = repr_lit and s = "[]"]
  note t16 = single_flight_per_file [where ev = "env17 batch_ok" and u = updater16
        and f = "''aqi_2019-11-11T17.csv''" and repr = repr_lit and s = "[]"]
  have g': "G (maybe_read_update_aqi_to_graph repr_lit (env17 batch_ok)
          (updater0\<lparr>aqi_data_wip := ''aqi_2019-11-11T17.csv''\<rparr>))
        = G (updater0\<lparr>aqi_data_wip := ''aqi_2019-11-11T17.csv''\<rparr>)"
    using t17 h by blast
  have n: "fst (new_aqi_data_available (env17 batch_ok) updater16) = Some ''aqi_2019-11-11T17.csv''"
    using t16 a by blast
  show ?thesis using h g g' n by (simp only:)
qed

text \<open>
  While the file of 16 o'clock is in progress, a trigger at 17 o'clock finds the file of
  that hour, merges it and completes.
\<close>

theorem single_flight_other_file_counterexample:
  "aqi_data_wip updater16 = ''aqi_2019-11-11T16.csv''
   \<and> edge_gdf (G updater16) = Keys [edge1, edge2]
   \<and> edge_gdf (G (maybe_read_update_aqi_to_graph repr_lit (env17 batch_ok) updater16))
       = KeysExps [(edge1, Val (PyTuple [PyFloat 3, PyFloat 10])), (edge2, NaN)]
   \<and> aqi_data_latest (maybe_read_update_aqi_to_graph repr_lit (env17 batch_ok) updater16)
       = ''aqi_2019-11-11T17.csv''"
  by (simp add: run_defs)

section \<open>Failed and completed cycles\<close>

text \<open>
  C1, as the code has it: a cycle has no rollback. When it ends in an exception, the
  attributes of the graph's edges, the latest file and the time of the last update are as
  before the cycle, and the file stays marked as in progress. If the exception comes from
  reading the file or from validating the batch, the dataset is exactly as before; if it
  comes later, the edge table is already the batch joined onto the previous keys. The
  job catches the exception and records it in the status message.
\<close>

theorem failed_cycle_state:
  assumes "read_update_aqi_to_graph repr ev csv u = (Some e, u')"
  shows "graph (G u') = graph (G u)
    \<and> aqi_data_latest u' = aqi_data_latest u
    \<and> aqi_data_updatetime u' = aqi_data_updatetime u
    \<and> aqi_data_wip u' = csv
    \<and> (read_csv ev (aqi_dir u @ csv) = Inl e1 \<longrightarrow> G u' = G u)
    \<and> (read_csv ev (aqi_dir u @ csv) = Inr b \<longrightarrow>
          (validate_aqi_exps b = Inl e2 \<longrightarrow> G u' = G u)
        \<and> (validate_aqi_exps b = Inr ok \<longrightarrow>
             edge_gdf (G u') = merge_left (df_uvkey (edge_gdf (G u))) b))
    \<and> (new_aqi_data_available ev u0 = (Some csv, u) \<longrightarrow>
          maybe_read_update_aqi_to_graph repr ev u0
            = u'\<lparr>aqi_update_status := ''could not complete AQI update from: '' @ csv\<rparr>)"
proof -
  have j: "join_aqi_updates ev csv u = (fst (join_aqi_updates ev csv u), snd (join_aqi_updates ev csv u))"
    by simp
  from read_update_Some [OF assms] consider
    (early) e1 where "fst (join_aqi_updates ev csv u) = Inl e1" "u' = u\<lparr>aqi_data_wip := csv\<rparr>"
    | (late) b' where "fst (join_aqi_updates ev csv u) = Inr b'"
        "u' = u\<lparr>aqi_data_wip := csv,
                G := (G u)\<lparr>edge_gdf := merge_left (df_uvkey (edge_gdf (G u))) b'\<rparr>\<rparr>"
    by blast
  then have main: "graph (G u') = graph (G u)
    \<and> aqi_data_latest u' = aqi_data_latest u
    \<and> aqi_data_updatetime u' = aqi_data_updatetime u
    \<and> aqi_data_wip u' = csv
    \<and> (read_csv ev (aqi_dir u @ csv) = Inl e1 \<longrightarrow> G u' = G u)
    \<and> (read_csv ev (aqi_dir u @ csv) = Inr b \<longrightarrow>
          (validate_aqi_exps b = Inl e2 \<longrightarrow> G u' = G u)
        \<and> (validate_aqi_exps b = Inr ok \<longrightarrow>
             edge_gdf (G u') = merge_left (df_uvkey (edge_gdf (G u))) b))"
  proof cases
    case early
    have "join_aqi_updates ev csv u = (Inl e1, snd (join_aqi_updates ev csv u))"
      using early(1) j by simp
    from join_aqi_updates_Inl [OF this]
    have "read_csv ev (aqi_dir u @ csv) = Inl e1
        \<or> (\<exists>b. read_csv ev (aqi_dir u @ csv) = Inr b \<and> validate_aqi_exps b = Inl e1)"
      by simp
    then show ?thesis using early(2) by auto
  next
    case late
    have "join_aqi_updates ev csv u = (Inr b', snd (join_aqi_updates ev csv u))"
      using late(1) j by simp
    from join_aqi_updates_Inr [OF this]
    have "read_csv ev (aqi_dir u @ csv) = Inr b'" "\<exists>ok. validate_aqi_exps b' = Inr ok"
      by simp_all
    then show ?thesis using late(2) by auto
  qed
  have job: "new_aqi_data_available ev u0 = (Some csv, u) \<longrightarrow>
          maybe_read_update_aqi_to_graph repr ev u0
            = u'\<lparr>aqi_update_status := ''could not complete AQI update from: '' @ csv\<rparr>"
    using assms by (simp add: maybe_read_update_aqi_to_graph_def)
  show ?thesis using main job by simp
qed

theorem failed_cycle_state_witness:
  "fst (read_update_aqi_to_graph repr_lit (env17 batch_bad) ''aqi_2019-11-11T17.csv'' updater0)
     = Some TypeError
   \<and> graph (G (snd (read_update_aqi_to_graph repr_lit (env17 batch_bad) ''aqi_2019-11-11T17.csv'' updater0)))
     = graph (G updater0)
   \<and> edge_gdf (G (snd (read_update_aqi_to_graph repr_lit (env17 batch_bad) ''aqi_2019-11-11T17.csv'' updater0)))
     = KeysExps [(edge1, Val (PyFloat (5 / 2))), (edge2, NaN)]
   \<and> fst (read_update_aqi_to_graph repr_lit (env17 batch_ok) ''aqi_2019-11-11T18.csv'' updater0)
     = Some IOError
   \<and> G (snd (read_update_aqi_to_graph repr_lit (env17 batch_ok) ''aqi_2019-11-11T18.csv'' updater0))
     = G updater0"
proof -
  let ?bad = "read_update_aqi_to_graph repr_lit (env17 batch_bad) ''aqi_2019-11-11T17.csv'' updater0"
  let ?mis = "read_update_aqi_to_graph repr_lit (env17 batch_ok) ''aqi_2019-11-11T18.csv'' updater0"
  have fb: "fst ?bad = Some TypeError" by (simp add: run_defs)
  then have hb: "?bad = (Some TypeError, snd ?bad)" by (metis prod.collapse)
  have fm: "fst ?mis = Some IOError" by (simp add: run_defs)
  then have hm: "?mis = (Some IOError, snd ?mis)" by (metis prod.collapse)
  have rb: "read_csv (env17 batch_bad) (aqi_dir updater0 @ ''aqi_2019-11-11T17.csv'') = Inr batch_bad"
    by (simp add: env17_def csv17_def updater0_def init_updater_def)
  have vb: "validate_aqi_exps batch_bad = Inr False"
    by (simp add: validate_aqi_exps_def batch_bad_def updater_validate_aqi_exp_def)
  have mb: "merge_left (df_uvkey (edge_gdf (G updater0))) batch_bad
      = KeysExps [(edge1, Val (PyFloat (5 / 2))), (edge2, NaN)]"
    by (simp add: updater0_def init_updater_def handler0_def batch_bad_def merge_row_def
        edge1_def edge2_def)
  have rm: "read_csv (env17 batch_ok) (aqi_dir updater0 @ ''aqi_2019-11-11T18.csv'') = Inl IOError"
    by (simp add: env17_def csv17_def updater0_def init_updater_def)
  note tb = failed_cycle_state [OF hb, where b = batch_bad and ok = False]
  note tm = failed_cycle_state [OF hm, where ?e1.0 = IOError]
  have 1: "graph (G (snd ?bad)) = graph (G updater0)" using tb by blast
  have 2: "edge_gdf (G (snd ?bad)) = KeysExps [(edge1, Val (PyFloat (5 / 2))), (edge2, NaN)]"
    using tb rb vb mb by simp
  have 3: "G (snd ?mis) = G updater0" using tm rm by blast
  show ?thesis using fb fm 1 2 3 by (simp only:)
qed

text \<open>
  The batch whose exposure cell is the float 2.5 fails the validation, which only logs,
  is merged and stored, and raises \<^verbatim>\<open>TypeError\<close> when the costs are prepared: after the
  failed cycle the edge table holds the merged column.
\<close>

theorem failed_cycle_merged_counterexample:
  "edge_gdf (G updater0) = Keys [edge1, edge2]
   \<and> edge_gdf (G (maybe_read_update_aqi_to_graph repr_lit (env17 batch_bad) updater0))
       = KeysExps [(edge1, Val (PyFloat (5 / 2))), (edge2, NaN)]
   \<and> aqi_update_status (maybe_read_update_aqi_to_graph repr_lit (env17 batch_bad) updater0)
       = ''could not complete AQI update from: aqi_2019-11-11T17.csv''
   \<and> aqi_data_latest (maybe_read_update_aqi_to_graph repr_lit (env17 batch_bad) updater0) = []"
  by (simp add: run_defs)

lemma fold_attrs_notin:
  "k \<notin> fst ` set rs \<Longrightarrow> fold (\<lambda>row g. set_edge_attributes g row) rs g k = g k"
  by (induction rs arbitrary: g) (auto simp: set_edge_attributes_def split: option.splits)

lemma fold_attrs_in:
  "distinct (map fst rs) \<Longrightarrow> (k, d) \<in> set rs \<Longrightarrow>
     fold (\<lambda>row g. set_edge_attributes g row) rs g k = map_option (\<lambda>old. old ++ d) (g k)"
proof (induction rs arbitrary: g)
  case Nil
  then show ?case by simp
next
  case (Cons r rs)
  show ?case
  proof (cases "r = (k, d)")
    case True
    then have "k \<notin> fst ` set rs" using Cons.prems(1) by auto
    then have "fold (\<lambda>row g. set_edge_attributes g row) rs (set_edge_attributes g r) k
        = set_edge_attributes g r k"
      by (rule fold_attrs_notin)
    then show ?thesis using True by (simp add: set_edge_attributes_def split: option.splits)
  next
    case False
    then have in': "(k, d) \<in> set rs" using Cons.prems(2) by simp
    then have "k \<in> fst ` set rs" by force
    then have ne: "fst r \<noteq> k" using Cons.prems(1) by auto
    have d: "distinct (map fst rs)" using Cons.prems(1) by simp
    have "set_edge_attributes g r k = g k"
      using ne by (simp add: set_edge_attributes_def split: option.splits)
    then show ?thesis using Cons.IH [OF d in', of "set_edge_attributes g r"] by simp
  qed
qed

lemma comprehension_zip_in:
  assumes "comprehension f (map snd rows) = Inr ys" and "(k, c) \<in> set rows"
  shows "\<exists>d. f c = Inr d \<and> (k, d) \<in> set (zip (map fst rows) ys)"
  using assms
proof (induction rows arbitrary: ys)
  case Nil
  then show ?case by simp
next
  case (Cons r rows)
  from Cons.prems(1) obtain y ys' where fr: "f (snd r) = Inr y"
    and c: "comprehension f (map snd rows) = Inr ys'" and ys: "ys = y # ys'"
    by (auto split: sum.splits)
  show ?case
  proof (cases "r = (k, c)")
    case True
    then show ?thesis using fr ys by auto
  next
    case False
    then have "(k, c) \<in> set rows" using Cons.prems(2) by simp
    from Cons.IH [OF c this] show ?thesis using ys by auto
  qed
qed

lemma comprehension_zip_fst:
  "comprehension f (map snd rows) = Inr ys \<Longrightarrow> map fst (zip (map fst rows) ys) = map fst rows"
  by (induction rows arbitrary: ys) (auto split: sum.splits)

lemma get_aq_update_attrs_pair:
  "\<exists>d. get_aq_update_attrs repr sns (Val (PyTuple [PyFloat a, PyFloat x])) = Inr d
     \<and> d ''aqi'' = Some (Val (PyFloat a))
     \<and> (inj_on (py_str repr) (set sns) \<longrightarrow>
          (\<forall>s \<in> set sns. d (''aqc_'' @ py_str repr s)
             = Some (Val (PyFloat (round2 (x + round2 (x * ((a - 1) / 4) * num_val s)))))))"
proof (cases "sns = []")
  case True
  then show ?thesis by (simp add: get_aq_update_attrs_def)
next
  case False
  obtain m where m: "get_aqi_costs repr (a, x) sns x = Inr m"
    and dm: "dom m = (\<lambda>s. ''aqc_'' @ py_str repr s) ` set sns"
    and vm: "inj_on (py_str repr) (set sns) \<longrightarrow>
          (\<forall>s \<in> set sns. m (''aqc_'' @ py_str repr s)
             = Some (round2 (x + round2 (x * ((a - 1) / 4) * num_val s))))"
    using get_aqi_costs_map [of repr a x sns x] by blast
  let ?d = "[''aqi'' \<mapsto> Val (PyFloat a)] ++ (map_option (\<lambda>c. Val (PyFloat c)) \<circ> m)"
  have eq: "get_aq_update_attrs repr sns (Val (PyTuple [PyFloat a, PyFloat x])) = Inr ?d"
    using False m by (simp add: get_aq_update_attrs_def)
  have "''aqi'' \<notin> dom m" unfolding dm by auto
  then have "m ''aqi'' = None" by blast
  then have aqi: "?d ''aqi'' = Some (Val (PyFloat a))" by (simp add: map_add_def)
  have costs: "inj_on (py_str repr) (set sns) \<longrightarrow>
          (\<forall>s \<in> set sns. ?d (''aqc_'' @ py_str repr s)
             = Some (Val (PyFloat (round2 (x + round2 (x * ((a - 1) / 4) * num_val s))))))"
    using vm by (simp add: map_add_def)
  show ?thesis
  proof (intro exI conjI)
    show "get_aq_update_attrs repr sns (Val (PyTuple [PyFloat a, PyFloat x])) = Inr ?d" by (rule eq)
    show "?d ''aqi'' = Some (Val (PyFloat a))" by (rule aqi)
    show "inj_on (py_str repr) (set sns) \<longrightarrow>
          (\<forall>s \<in> set sns. ?d (''aqc_'' @ py_str repr s)
             = Some (Val (PyFloat (round2 (x + round2 (x * ((a - 1) / 4) * num_val s))))))"
      by (rule costs)
  qed
qed

text \<open>
  C2, as the code has it: the joined edge table is stored first, with the graph's edge
  attributes still as before; the cost attributes are computed and written afterwards,
  for the rows of the batch only. When a cycle completes, an edge whose key is not in
  the batch keeps its attributes; with distinct keys in the batch, an edge of the batch
  has its previous attributes overridden by the attributes computed from its record.
  For a record that is a pair of floats these are \<open>aqi\<close> and, for each sensitivity \<open>s\<close>
  of the updater, \<open>aqc_<s>\<close> with the value
  \<open>round(distance + round(distance * ((index - 1) / 4) * s, 2), 2)\<close>.
\<close>

theorem completed_cycle_attrs:
  assumes "read_update_aqi_to_graph repr ev csv u = (None, u')"
  shows "\<exists>rows u1. read_csv ev (aqi_dir u @ csv) = Inr (KeysExps rows)
    \<and> join_aqi_updates ev csv u = (Inr (KeysExps rows), u1)
    \<and> edge_gdf (G u1) = KeysExps (concat (map (merge_row rows) (df_uvkey (edge_gdf (G u)))))
    \<and> graph (G u1) = graph (G u)
    \<and> edge_gdf (G u') = edge_gdf (G u1)
    \<and> (\<forall>k. k \<notin> fst ` set rows \<longrightarrow> graph (G u') k = graph (G u) k)
    \<and> (distinct (map fst rows) \<longrightarrow>
         (\<forall>r \<in> set rows. \<exists>d. get_aq_update_attrs repr (sens u) (snd r) = Inr d
            \<and> graph (G u') (fst r) = map_option (\<lambda>old. old ++ d) (graph (G u) (fst r))))
    \<and> aqi_data_latest u' = csv \<and> aqi_data_wip u' = [] \<and> aqi_data_updatetime u' = Some (utcnow ev)
    \<and> (\<exists>d. get_aq_update_attrs repr (sens u) (Val (PyTuple [PyFloat a, PyFloat x])) = Inr d
          \<and> d ''aqi'' = Some (Val (PyFloat a))
          \<and> (inj_on (py_str repr) (set (sens u)) \<longrightarrow>
               (\<forall>s \<in> set (sens u). d (''aqc_'' @ py_str repr s)
                  = Some (Val (PyFloat (round2 (x + round2 (x * ((a - 1) / 4) * num_val s))))))))"
proof -
  from read_update_None [OF assms] obtain b col aq where
    rd: "read_csv ev (aqi_dir u @ csv) = Inr b" and col: "df_aqi_exp b = Inr col"
    and aq: "comprehension (get_aq_update_attrs repr (sens u)) col = Inr aq"
    and u': "u' = u\<lparr>G := \<lparr>edge_gdf = merge_left (df_uvkey (edge_gdf (G u))) b,
                        graph = fold (\<lambda>row g. set_edge_attributes g row) (zip (df_uvkey b) aq) (graph (G u))\<rparr>,
                 aqi_data_updatetime := Some (utcnow ev),
                 aqi_data_latest := csv,
                 aqi_data_wip := []\<rparr>"
    by blast
  from col obtain rows where b: "b = KeysExps rows" and c: "col = map snd rows"
    by (cases b) auto
  have aq': "comprehension (get_aq_update_attrs repr (sens u)) (map snd rows) = Inr aq"
    using aq c by simp
  let ?zs = "zip (map fst rows) aq"
  have gr: "graph (G u') = fold (\<lambda>row g. set_edge_attributes g row) ?zs (graph (G u))"
    using u' b by simp
  obtain r1 u1 where j: "join_aqi_updates ev csv u = (r1, u1)" by (cases "join_aqi_updates ev csv u")
  have r1: "r1 = Inr b"
  proof (cases r1)
    case (Inl e)
    then show ?thesis using assms j by (simp add: read_update_aqi_to_graph_def)
  next
    case (Inr b')
    then have "read_csv ev (aqi_dir u @ csv) = Inr b'" using j join_aqi_updates_Inr by blast
    then show ?thesis using rd Inr by simp
  qed
  have u1: "u1 = u\<lparr>aqi_data_wip := csv,
              G := (G u)\<lparr>edge_gdf := merge_left (df_uvkey (edge_gdf (G u))) b\<rparr>\<rparr>"
    using j r1 join_aqi_updates_Inr by blast
  have p1: "join_aqi_updates ev csv u = (Inr (KeysExps rows), u1)" using j r1 b by simp
  have p2: "edge_gdf (G u1) = KeysExps (concat (map (merge_row rows) (df_uvkey (edge_gdf (G u)))))"
    using u1 b by simp
  have p3: "graph (G u1) = graph (G u)" using u1 by simp
  have p4: "edge_gdf (G u') = edge_gdf (G u1)" using u1 u' by simp
  have p5: "\<forall>k. k \<notin> fst ` set rows \<longrightarrow> graph (G u') k = graph (G u) k"
  proof (intro allI impI)
    fix k assume "k \<notin> fst ` set rows"
    then have "k \<notin> set (map fst ?zs)" using comprehension_zip_fst [OF aq'] by simp
    then have "k \<notin> fst ` set ?zs" by simp
    then show "graph (G u') k = graph (G u) k" unfolding gr by (rule fold_attrs_notin)
  qed
  have p6: "distinct (map fst rows) \<longrightarrow>
         (\<forall>r \<in> set rows. \<exists>d. get_aq_update_attrs repr (sens u) (snd r) = Inr d
            \<and> graph (G u') (fst r) = map_option (\<lambda>old. old ++ d) (graph (G u) (fst r)))"
  proof (intro impI ballI)
    fix r assume d: "distinct (map fst rows)" and r: "r \<in> set rows"
    have dz: "distinct (map fst ?zs)" using d comprehension_zip_fst [OF aq'] by simp
    have "(fst r, snd r) \<in> set rows" using r by simp
    from comprehension_zip_in [OF aq' this] obtain dd where
      f: "get_aq_update_attrs repr (sens u) (snd r) = Inr dd" and z: "(fst r, dd) \<in> set ?zs"
      by blast
    have "graph (G u') (fst r) = map_option (\<lambda>old. old ++ dd) (graph (G u) (fst r))"
      unfolding gr using dz z by (rule fold_attrs_in)
    then show "\<exists>d. get_aq_update_attrs repr (sens u) (snd r) = Inr d
            \<and> graph (G u') (fst r) = map_option (\<lambda>old. old ++ d) (graph (G u) (fst r))"
      using f by blast
  qed
  have p7: "aqi_data_latest u' = csv \<and> aqi_data_wip u' = [] \<and> aqi_data_updatetime u' = Some (utcnow ev)"
    using u' by simp
  have p0: "read_csv ev (aqi_dir u @ csv) = Inr (KeysExps rows)" using rd b by simp
  note p8 = get_aq_update_attrs_pair [of repr "sens u" a x]
  show ?thesis
  proof (rule exI [of _ rows], rule exI [of _ u1])
    from p7 p8 have "(aqi_data_latest u' = csv \<and> aqi_data_wip u' = []
        \<and> aqi_data_updatetime u' = Some (utcnow ev))
      \<and> (\<exists>d. get_aq_update_attrs repr (sens u) (Val (PyTuple [PyFloat a, PyFloat x])) = Inr d
          \<and> d ''aqi'' = Some (Val (PyFloat a))
          \<and> (inj_on (py_str repr) (set (sens u)) \<longrightarrow>
               (\<forall>s \<in> set (sens u). d (''aqc_'' @ py_str repr s)
                  = Some (Val (PyFloat (round2 (x + round2 (x * ((a - 1) / 4) * num_val s))))))))"
      by (rule conjI)
    then have q: "aqi_data_latest u' = csv \<and> aqi_data_wip u' = []
        \<and> aqi_data_updatetime u' = Some (utcnow ev)
        \<and> (\<exists>d. get_aq_update_attrs repr (sens u) (Val (PyTuple [PyFloat a, PyFloat x])) = Inr d
          \<and> d ''aqi'' = Some (Val (PyFloat a))
          \<and> (inj_on (py_str repr) (set (sens u)) \<longrightarrow>
               (\<forall>s \<in> set (sens u). d (''aqc_'' @ py_str repr s)
                  = Some (Val (PyFloat (round2 (x + round2 (x * ((a - 1) / 4) * num_val s))))))))"
      by (simp only: conj_assoc)
    show "read_csv ev (aqi_dir u @ csv) = Inr (KeysExps rows)
      \<and> join_aqi_updates ev csv u = (Inr (KeysExps rows), u1)
      \<and> edge_gdf (G u1) = KeysExps (concat (map (merge_row rows) (df_uvkey (edge_gdf (G u)))))
      \<and> graph (G u1) = graph (G u)
      \<and> edge_gdf (G u') = edge_gdf (G u1)
      \<and> (\<forall>k. k \<notin> fst ` set rows \<longrightarrow> graph (G u') k = graph (G u) k)
      \<and> (distinct (map fst rows) \<longrightarrow>
           (\<forall>r \<in> set rows. \<exists>d. get_aq_update_attrs repr (sens u) (snd r) = Inr d
              \<and> graph (G u') (fst r) = map_option (\<lambda>old. old ++ d) (graph (G u) (fst r))))
      \<and> aqi_data_latest u' = csv \<and> aqi_data_wip u' = [] \<and> aqi_data_updatetime u' = Some (utcnow ev)
      \<and> (\<exists>d. get_aq_update_attrs repr (sens u) (Val (PyTuple [PyFloat a, PyFloat x])) = Inr d
          \<and> d ''aqi'' = Some (Val (PyFloat a))
          \<and> (inj_on (py_str repr) (set (sens u)) \<longrightarrow>
               (\<forall>s \<in> set (sens u). d (''aqc_'' @ py_str repr s)
                  = Some (Val (PyFloat (round2 (x + round2 (x * ((a - 1) / 4) * num_val s))))))))"
      by (rule conjI [OF p0 conjI [OF p1 conjI [OF p2 conjI [OF p3 conjI [OF p4 conjI [OF p5 conjI [OF p6 q]]]]]]])
  qed
qed

theorem completed_cycle_attrs_witness:
  "fst (read_update_aqi_to_graph repr_lit (env17 batch_ok) ''aqi_2019-11-11T17.csv'' updater0) = None
   \<and> aqi_data_latest (snd (read_update_aqi_to_graph repr_lit (env17 batch_ok) ''aqi_2019-11-11T17.csv'' updater0))
       = ''aqi_2019-11-11T17.csv''
   \<and> graph (G (snd (read_update_aqi_to_graph repr_lit (env17 batch_ok) ''aqi_2019-11-11T17.csv'' updater0))) edge2
       = graph (G updater0) edge2
   \<and> edge_gdf (G (snd (read_update_aqi_to_graph repr_lit (env17 batch_ok) ''aqi_2019-11-11T17.csv'' updater0)))
       = KeysExps [(edge1, Val (PyTuple [PyFloat 3, PyFloat 10])), (edge2, NaN)]
   \<and> map_option (\<lambda>a. (a ''aqi'', a ''aqc_0.2'', a ''aqc_0.5'', a ''aqc_1'', a ''aqc_35''))
        (graph (G (snd (read_update_aqi_to_graph repr_lit (env17 batch_ok) ''aqi_2019-11-11T17.csv'' updater0))) edge1)
       = Some (Some (Val (PyFloat 3)), Some (Val (PyFloat 11)), Some (Val (PyFloat (25 / 2))),
               Some (Val (PyFloat 15)), Some (Val (PyFloat 185)))"
proof -
  let ?run = "read_update_aqi_to_graph repr_lit (env17 batch_ok) ''aqi_2019-11-11T17.csv'' updater0"
  have f: "fst ?run = None" by (simp add: run_defs)
  then have h: "?run = (None, snd ?run)" by (metis prod.collapse)
  from completed_cycle_attrs [OF h] obtain rows where
    r: "read_csv (env17 batch_ok) (aqi_dir updater0 @ ''aqi_2019-11-11T17.csv'') = Inr (KeysExps rows)"
    and n: "\<forall>k. k \<notin> fst ` set rows \<longrightarrow> graph (G (snd ?run)) k = graph (G updater0) k"
    and l: "aqi_data_latest (snd ?run) = ''aqi_2019-11-11T17.csv''"
    by blast
  have "rows = [(edge1, Val (PyTuple [PyFloat 3, PyFloat 10]))]"
    using r by (simp add: env17_def csv17_def batch_ok_def updater0_def init_updater_def)
  then have e2: "graph (G (snd ?run)) edge2 = graph (G updater0) edge2"
    using n by (simp add: edge1_def edge2_def)
  have g: "edge_gdf (G (snd ?run))
       = KeysExps [(edge1, Val (PyTuple [PyFloat 3, PyFloat 10])), (edge2, NaN)]"
    by (simp add: run_defs)
  have e1: "map_option (\<lambda>a. (a ''aqi'', a ''aqc_0.2'', a ''aqc_0.5'', a ''aqc_1'', a ''aqc_35''))
        (graph (G (snd ?run)) edge1)
       = Some (Some (Val (PyFloat 3)), Some (Val (PyFloat 11)), Some (Val (PyFloat (25 / 2))),
               Some (Val (PyFloat 15)), Some (Val (PyFloat 185)))"
    by (simp add: run_defs map_add_def)
  show ?thesis using f l e2 g e1 by (simp only:)
qed

text \<open>
  After the joined table is stored the first edge has its exposure (3.0, 10.0) in the
  table and no cost attribute in the graph; after the cycle has completed the second
  edge, which the batch does not mention, still has none.
\<close>

theorem published_without_costs_counterexample:
  "edge_gdf (G (snd (join_aqi_updates (env17 batch_ok) ''aqi_2019-11-11T17.csv'' updater0)))
     = KeysExps [(edge1, Val (PyTuple [PyFloat 3, PyFloat 10])), (edge2, NaN)]
   \<and> graph (G (snd (join_aqi_updates (env17 batch_ok) ''aqi_2019-11-11T17.csv'' updater0))) edge1
     = Some Map.empty
   \<and> fst (read_update_aqi_to_graph repr_lit (env17 batch_ok) ''aqi_2019-11-11T17.csv'' updater0) = None
   \<and> graph (G (snd (read_update_aqi_to_graph repr_lit (env17 batch_ok) ''aqi_2019-11-11T17.csv'' updater0))) edge2
     = Some Map.empty"
  by (simp add: run_defs)


end
